theory Spec2Isabelle
  imports Complex_Main "HOL-Library.Char_ord" "HOL-Library.List_Lexorder"
begin

section \<open>Data model of the content server\<close>

text \<open>
  The TypeScript sources alias most values to strings and numbers
  (\<^verbatim>\<open>EntityId\<close>, \<^verbatim>\<open>FileHash\<close>, \<^verbatim>\<open>Pointer\<close>, \<^verbatim>\<open>EthAddress\<close>, \<^verbatim>\<open>Timestamp\<close>, ...).
  A \<^verbatim>\<open>Buffer\<close> is a sequence of bytes. \<^verbatim>\<open>EntityType\<close> is a string enum.
\<close>

type_synonym FileHash = string
type_synonym EntityId = string
type_synonym Pointer = string
type_synonym EntityType = string
type_synonym EthAddress = string
type_synonym Signature = string
type_synonym ServerName = string
type_synonym Timestamp = int
type_synonym Buffer = "nat list"

text \<open>\<^verbatim>\<open>File\<close> (Service.ts): the fields the sources read are \<^verbatim>\<open>name\<close> and \<^verbatim>\<open>content\<close>.\<close>

record File =
  file_name :: string
  file_content :: Buffer

text \<open>
  \<^verbatim>\<open>Entity\<close>: \<^verbatim>\<open>new Entity(id, type, pointers, timestamp, content, metadata)\<close>;
  \<^verbatim>\<open>content\<close> is a \<^verbatim>\<open>Map<string, FileHash> | undefined\<close>, kept here in insertion order.
\<close>

record Entity =
  entity_id :: EntityId
  entity_type :: EntityType
  entity_pointers :: "Pointer list"
  entity_timestamp :: Timestamp
  entity_content :: "(string \<times> FileHash) list option"
  entity_metadata :: "string option"

text \<open>
  Every \<^verbatim>\<open>throw\<close> of the sources is a value of this type. The comments give the
  message of the \<^verbatim>\<open>Error\<close> thrown; the two \<^verbatim>\<open>TypeError\<close>s are raised by the
  JavaScript runtime itself.
\<close>

datatype Exception =
    FailedToFindEntityFile
      \<comment> \<open>Failed to find the entity file. Please make sure that it is named 'entity.json'.\<close>
  | MoreThanOneEntityFile
      \<comment> \<open>Found more than one file called 'entity.json'. Please make sure you upload only one with that name.\<close>
  | EntityHashMismatch
      \<comment> \<open>Entity file's hash didn't match the signed entity id.\<close>
  | EntityParseError
      \<comment> \<open>whatever \<^verbatim>\<open>EntityFactory.fromFile\<close> throws on a malformed descriptor\<close>
  | ValidationErrors "string list"
      \<comment> \<open>\<^verbatim>\<open>new Error(validation.getErrors().join('\n'))\<close>\<close>
  | TypeError_ReduceOfEmptyArray
      \<comment> \<open>TypeError: Reduce of empty array with no initial value\<close>
  | TypeError_UndefinedProperty
      \<comment> \<open>TypeError: Cannot read property 'content' of undefined\<close>
  | BlacklistedAddress EthAddress
      \<comment> \<open>Can't allow a deployment from address '...' since it was blacklisted.\<close>
  | BlacklistedContent
      \<comment> \<open>Can't allow the deployment since the entity contains a blacklisted content.\<close>
  | BlacklistedPointer
      \<comment> \<open>Can't allow the deployment since the entity contains a blacklisted pointer.\<close>
  | FailedToDistributeCall
      \<comment> \<open>Failed to distribute call among reachable servers\<close>
  | PeerFailure string
      \<comment> \<open>an error of a remote content server\<close>

definition ENTITY_FILE_NAME :: string where
  "ENTITY_FILE_NAME = ''entity.json''"

subsection \<open>ServiceImpl.findEntityFile\<close>

definition findEntityFile :: "File list \<Rightarrow> Exception + File" where
  "findEntityFile files =
     (let filesWithName = filter (\<lambda>file. file_name file = ENTITY_FILE_NAME) files
      in if length filesWithName = 0 then Inl FailedToFindEntityFile
         else if length filesWithName > 1 then Inl MoreThanOneEntityFile
         else Inr (hd filesWithName))"

section \<open>The blacklist decorator (BlacklistServiceDecorator.ts)\<close>

text \<open>The four builders of BlacklistTarget.ts, one constructor each.\<close>

datatype BlacklistTarget =
    buildAddressTarget EthAddress
  | buildContentTarget FileHash
  | buildPointerTarget EntityType Pointer
  | buildEntityTarget EntityType EntityId

text \<open>
  Modelled from the spec: \<^verbatim>\<open>Blacklist.areTargetsBlacklisted\<close> (Blacklist.ts is not among
  the sources). It answers for the targets it is given and for nothing else: the
  resulting \<^verbatim>\<open>Map<BlacklistTarget, boolean>\<close> has one entry per target object passed
  in (the keys are objects, compared by identity, so no two entries merge). The
  blacklist itself is the predicate \<open>blacklisted\<close>.
\<close>

definition areTargetsBlacklisted ::
  "(BlacklistTarget \<Rightarrow> bool) \<Rightarrow> BlacklistTarget list \<Rightarrow> (BlacklistTarget \<times> bool) list" where
  "areTargetsBlacklisted blacklisted targets = map (\<lambda>target. (target, blacklisted target)) targets"

text \<open>
  \<^verbatim>\<open>Array.prototype.reduce\<close> called without an initial value: the first element
  starts the accumulation, and an empty array makes the runtime throw a TypeError.
\<close>

fun reduce :: "('a \<Rightarrow> 'a \<Rightarrow> 'a) \<Rightarrow> 'a list \<Rightarrow> Exception + 'a" where
  "reduce f [] = Inl TypeError_ReduceOfEmptyArray"
| "reduce f (x # xs) = Inr (foldl f x xs)"

text \<open>
  \<^verbatim>\<open>areBlacklisted(...targets)\<close>:
  \<^verbatim>\<open>Array.from(result.values()).reduce((accum, currentValue) => accum || currentValue)\<close>.
\<close>

definition areBlacklisted ::
  "(BlacklistTarget \<Rightarrow> bool) \<Rightarrow> BlacklistTarget list \<Rightarrow> Exception + bool" where
  "areBlacklisted blacklisted targets =
     (let result = areTargetsBlacklisted blacklisted targets
      in reduce (\<lambda>accum currentValue. accum \<or> currentValue) (map snd result))"

text \<open>\<^verbatim>\<open>Array.from(entity.content?.values() ?? [])\<close>\<close>

definition contentValues :: "Entity \<Rightarrow> FileHash list" where
  "contentValues entity = (case entity_content entity of None \<Rightarrow> [] | Some content \<Rightarrow> map snd content)"

text \<open>
  \<^verbatim>\<open>BlacklistServiceDecorator.deployEntity\<close>. The decorated service's \<^verbatim>\<open>deployEntity\<close>
  and \<^verbatim>\<open>EntityFactory.fromFile\<close> (which throws on a malformed descriptor: \<open>None\<close>)
  are parameters. \<open>'r\<close> is whatever the decorated service returns.
\<close>

definition blacklist_deployEntity ::
  "(BlacklistTarget \<Rightarrow> bool) \<Rightarrow> (File \<Rightarrow> EntityId \<Rightarrow> Entity option) \<Rightarrow>
   (File list \<Rightarrow> EntityId \<Rightarrow> EthAddress \<Rightarrow> Signature \<Rightarrow> Exception + 'r) \<Rightarrow>
   File list \<Rightarrow> EntityId \<Rightarrow> EthAddress \<Rightarrow> Signature \<Rightarrow> Exception + 'r" where
  "blacklist_deployEntity blacklisted fromFile service_deployEntity files entityId ethAddress signature =
     (case areBlacklisted blacklisted [buildAddressTarget ethAddress] of
        Inl err \<Rightarrow> Inl err
      | Inr True \<Rightarrow> Inl (BlacklistedAddress ethAddress)
      | Inr False \<Rightarrow>
     (case findEntityFile files of
        Inl err \<Rightarrow> Inl err
      | Inr entityFile \<Rightarrow>
     (case fromFile entityFile entityId of
        None \<Rightarrow> Inl EntityParseError
      | Some entity \<Rightarrow>
     (let contentTargets = map buildContentTarget (contentValues entity) in
      case areBlacklisted blacklisted contentTargets of
        Inl err \<Rightarrow> Inl err
      | Inr True \<Rightarrow> Inl BlacklistedContent
      | Inr False \<Rightarrow>
     (let pointerTargets = map (buildPointerTarget (entity_type entity)) (entity_pointers entity) in
      case areBlacklisted blacklisted pointerTargets of
        Inl err \<Rightarrow> Inl err
      | Inr True \<Rightarrow> Inl BlacklistedPointer
      | Inr False \<Rightarrow> service_deployEntity files entityId ethAddress signature)))))"

text \<open>An entity without content, in a request that holds nothing blacklisted.\<close>

definition plain_entity :: Entity where
  "plain_entity = \<lparr> entity_id = ''E1'', entity_type = ''scene'', entity_pointers = [''0,0''],
      entity_timestamp = 1000, entity_content = None, entity_metadata = None \<rparr>"

definition plain_files :: "File list" where
  "plain_files = [\<lparr> file_name = ''entity.json'', file_content = [1, 2, 3] \<rparr>]"

section \<open>The redirect client (RedirectContentServerClient.ts)\<close>

text \<open>
  A call on a content server client returns a promise, unless it throws before it
  returns one. A promise is modelled by how it settles.
\<close>

datatype 'a Promise = Resolved 'a | Rejected Exception

datatype 'a Completion = Returns 'a | Throws Exception

record AuditInfo =
  audit_deployedTimestamp :: Timestamp
  audit_ethAddress :: EthAddress
  audit_signature :: Signature

record HistoryEvent =
  event_serverName :: ServerName
  event_entityType :: EntityType
  event_entityId :: EntityId
  event_timestamp :: Timestamp

type_synonym DeploymentHistory = "HistoryEvent list"

text \<open>
  \<^verbatim>\<open>ServerStatus\<close>: an object literal of JavaScript has the fields it was written with;
  a field that was not written reads as \<^verbatim>\<open>undefined\<close> (\<open>None\<close>).
\<close>

record ServerStatus =
  status_name :: ServerName
  status_version :: string
  status_currentTime :: Timestamp
  status_lastImmutableTime :: "Timestamp option"

text \<open>
  The abstract class \<^verbatim>\<open>ContentServerClient\<close> as the redirect client uses it: the two
  fields its constructor takes, and the four remote calls the redirect client passes on,
  each given by what the call does when made.
\<close>

record ContentServerClient =
  client_name :: ServerName
  client_lastKnownTimestamp :: Timestamp
  client_getHistory :: "Timestamp \<Rightarrow> ServerName option \<Rightarrow> Timestamp option \<Rightarrow> DeploymentHistory Promise Completion"
  client_getStatus :: "ServerStatus Promise Completion"
  client_getAuditInfo :: "EntityType \<Rightarrow> EntityId \<Rightarrow> AuditInfo Promise Completion"
  client_getEntity :: "EntityType \<Rightarrow> EntityId \<Rightarrow> Entity Promise Completion"
  client_getContentFile :: "FileHash \<Rightarrow> File Promise Completion"

text \<open>
  \<^verbatim>\<open>ContentCluster\<close> is used through \<^verbatim>\<open>getAllActiveServersInCluster()\<close> only: the cluster
  is what that call returns when the redirect client makes it.
\<close>

record ContentCluster =
  getAllActiveServersInCluster :: "ContentServerClient list"

record RedirectContentServerClient =
  redirect_cluster :: ContentCluster
  redirect_name :: ServerName
  redirect_lastKnownTimestamp :: Timestamp

definition getRedirectClient ::
  "ContentCluster \<Rightarrow> ServerName \<Rightarrow> Timestamp \<Rightarrow> RedirectContentServerClient" where
  "getRedirectClient cluster name lastKnownTimestamp =
     \<lparr> redirect_cluster = cluster, redirect_name = name,
       redirect_lastKnownTimestamp = lastKnownTimestamp \<rparr>"

text \<open>
  The loop of \<^verbatim>\<open>redirectCall\<close>: \<^verbatim>\<open>try { return call(server) } catch (error) {}\<close>. The
  function is not \<^verbatim>\<open>async\<close> and the promise is returned as it is, so the \<^verbatim>\<open>catch\<close>
  sees what \<^verbatim>\<open>call(server)\<close> throws before returning, and nothing else.
\<close>

fun redirectLoop :: "(ContentServerClient \<Rightarrow> 'a Completion) \<Rightarrow> ContentServerClient list \<Rightarrow> 'a Completion" where
  "redirectLoop call [] = Throws FailedToDistributeCall"
| "redirectLoop call (server # servers) =
     (case call server of
        Returns result \<Rightarrow> Returns result
      | Throws error \<Rightarrow> redirectLoop call servers)"

definition redirectCall ::
  "RedirectContentServerClient \<Rightarrow> (ContentServerClient \<Rightarrow> 'a Completion) \<Rightarrow> 'a Completion" where
  "redirectCall this call = redirectLoop call (getAllActiveServersInCluster (redirect_cluster this))"

definition redirect_getHistory ::
  "RedirectContentServerClient \<Rightarrow> Timestamp \<Rightarrow> ServerName option \<Rightarrow> Timestamp option \<Rightarrow>
   DeploymentHistory Promise Completion" where
  "redirect_getHistory this from serverName to =
     redirectCall this (\<lambda>server. client_getHistory server from serverName to)"

definition redirect_getStatus :: "RedirectContentServerClient \<Rightarrow> ServerStatus Promise Completion" where
  "redirect_getStatus this =
     (let status = \<lparr> status_name = redirect_name this, status_version = ''Unknown'',
                     status_currentTime = redirect_lastKnownTimestamp this,
                     status_lastImmutableTime = Some (- 1) \<rparr>
      in Returns (Resolved status))"

definition redirect_getAuditInfo ::
  "RedirectContentServerClient \<Rightarrow> EntityType \<Rightarrow> EntityId \<Rightarrow> AuditInfo Promise Completion" where
  "redirect_getAuditInfo this entityType entityId =
     redirectCall this (\<lambda>server. client_getAuditInfo server entityType entityId)"

definition redirect_getEntity ::
  "RedirectContentServerClient \<Rightarrow> EntityType \<Rightarrow> EntityId \<Rightarrow> Entity Promise Completion" where
  "redirect_getEntity this entityType entityId =
     redirectCall this (\<lambda>server. client_getEntity server entityType entityId)"

definition redirect_getContentFile ::
  "RedirectContentServerClient \<Rightarrow> FileHash \<Rightarrow> File Promise Completion" where
  "redirect_getContentFile this fileHash =
     redirectCall this (\<lambda>server. client_getContentFile server fileHash)"

text \<open>
  \<^verbatim>\<open>updateTimestamp\<close> returns \<^verbatim>\<open>Promise.resolve()\<close>; the client after the call is the second
  component.
\<close>

definition redirect_updateTimestamp ::
  "RedirectContentServerClient \<Rightarrow> Timestamp option \<Rightarrow> unit Promise \<times> RedirectContentServerClient" where
  "redirect_updateTimestamp this timestamp = (Resolved (), this)"

definition redirect_isActive :: "RedirectContentServerClient \<Rightarrow> bool" where
  "redirect_isActive this = False"

text \<open>
  Two peers for the examples: one whose every request is rejected (an unreachable
  host), one that answers.
\<close>

definition failing_peer :: ContentServerClient where
  "failing_peer =
     \<lparr> client_name = ''peer-1'', client_lastKnownTimestamp = 10,
       client_getHistory = (\<lambda>from serverName to. Returns (Rejected (PeerFailure ''ECONNREFUSED''))),
       client_getStatus = Returns (Rejected (PeerFailure ''ECONNREFUSED'')),
       client_getAuditInfo = (\<lambda>entityType entityId. Returns (Rejected (PeerFailure ''ECONNREFUSED''))),
       client_getEntity = (\<lambda>entityType entityId. Returns (Rejected (PeerFailure ''ECONNREFUSED''))),
       client_getContentFile = (\<lambda>fileHash. Returns (Rejected (PeerFailure ''ECONNREFUSED''))) \<rparr>"

definition answering_peer :: ContentServerClient where
  "answering_peer =
     \<lparr> client_name = ''peer-2'', client_lastKnownTimestamp = 20,
       client_getHistory = (\<lambda>from serverName to. Returns (Resolved [])),
       client_getStatus = Returns (Resolved \<lparr> status_name = ''peer-2'', status_version = ''1.0'',
          status_currentTime = 5000, status_lastImmutableTime = Some 4000 \<rparr>),
       client_getAuditInfo = (\<lambda>entityType entityId. Returns (Resolved
          \<lparr> audit_deployedTimestamp = 1500, audit_ethAddress = ''0xabc'',
             audit_signature = ''sig'' \<rparr>)),
       client_getEntity = (\<lambda>entityType entityId. Returns (Resolved plain_entity)),
       client_getContentFile = (\<lambda>fileHash. Returns (Resolved
          \<lparr> file_name = fileHash, file_content = [1, 2, 3] \<rparr>)) \<rparr>"

section \<open>The deploy orchestrator (ServiceImpl.ts)\<close>

subsection \<open>Collaborators\<close>

text \<open>
  \<^verbatim>\<open>CommitResult\<close> of the pointer manager, as \<^verbatim>\<open>deployEntityWithServerAndTimestamp\<close>
  reads it.
\<close>

record CommitResult =
  couldCommit :: bool
  entitiesDeleted :: "EntityId list"

text \<open>
  A JavaScript \<^verbatim>\<open>Map\<close> keeps its entries in insertion order; setting a key that is
  there replaces the value in place. \<^verbatim>\<open>new Map(entries)\<close> sets the entries one by one.
\<close>

type_synonym ('k, 'v) JsMap = "('k \<times> 'v) list"

definition Map_set :: "('k, 'v) JsMap \<Rightarrow> 'k \<Rightarrow> 'v \<Rightarrow> ('k, 'v) JsMap" where
  "Map_set m key v =
     (if key \<in> set (map fst m) then map (\<lambda>(k, old). if k = key then (k, v) else (k, old)) m
      else m @ [(key, v)])"

definition new_Map :: "('k \<times> 'v) list \<Rightarrow> ('k, 'v) JsMap" where
  "new_Map entries = foldl (\<lambda>m (k, v). Map_set m k v) [] entries"

text \<open>
  The classes and functions that \<^verbatim>\<open>ServiceImpl\<close> calls and whose files are not among
  the sources are parameters of the model, one field each, named as the call is
  written in ServiceImpl.ts. \<open>'p\<close> is the state of the pointer manager.
  \<^item> \<^verbatim>\<open>EntityFactory.fromFile\<close> and \<^verbatim>\<open>fromBufferWithId\<close> throw on a malformed descriptor
    (\<open>None\<close>).
  \<^item> The methods of \<^verbatim>\<open>Validation\<close> push error strings on the list that
    \<^verbatim>\<open>validation.getErrors()\<close> returns; each is given by the errors it pushes.
  \<^item> \<open>Date_now\<close> is what \<^verbatim>\<open>Date.now()\<close> returns when the service calls it.
\<close>

record 'p Collaborators =
  Hashing_calculateHash :: "File \<Rightarrow> FileHash"
  EntityFactory_fromFile :: "File \<Rightarrow> EntityId \<Rightarrow> Entity option"
  EntityFactory_fromBufferWithId :: "Buffer \<Rightarrow> EntityId \<Rightarrow> Entity option"
  JSON_stringify :: "AuditInfo \<Rightarrow> Buffer"
  validateSignature :: "EntityId \<Rightarrow> EthAddress \<Rightarrow> Signature \<Rightarrow> string list"
  validateRequestSize :: "File list \<Rightarrow> string list"
  validateEntity :: "Entity \<Rightarrow> string list"
  validateAccess :: "Pointer list \<Rightarrow> EthAddress \<Rightarrow> EntityType \<Rightarrow> string list"
  validateType :: "Entity \<Rightarrow> string list"
  validateHashes :: "Entity \<Rightarrow> (FileHash, File) JsMap \<Rightarrow> (FileHash, bool) JsMap \<Rightarrow> string list"
  tryToCommitPointers :: "Entity \<Rightarrow> 'p \<Rightarrow> CommitResult \<times> 'p"
  getEntityInPointer :: "'p \<Rightarrow> EntityType \<Rightarrow> Pointer \<Rightarrow> EntityId option"
  getServerName :: ServerName
  Date_now :: Timestamp

subsection \<open>State\<close>

text \<open>
  The three owners of persistent state each record what the service asks of them, in
  the order of the calls: \<open>effects\<close> is that record. It is there to state in which
  order a deployment mutates them; nothing reads it.
\<close>

datatype Effect =
    PointersCommit EntityId bool
      \<comment> \<open>\<^verbatim>\<open>pointerManager.tryToCommitPointers(entity)\<close> and the \<^verbatim>\<open>couldCommit\<close> it answered\<close>
  | StorageStore string string
      \<comment> \<open>\<^verbatim>\<open>storage.store(category, id, content)\<close>\<close>
  | HistoryAppend EntityId
      \<comment> \<open>\<^verbatim>\<open>historyManager.newEntityDeployment(serverName, entity, timestamp)\<close>\<close>

text \<open>
  The fields of \<^verbatim>\<open>ServiceImpl\<close>.
  \<^item> \<open>storage\<close>: the \<^verbatim>\<open>ContentStorage\<close>, a store from category and id to bytes;
    \<^verbatim>\<open>store\<close> writes, \<^verbatim>\<open>exists\<close> and \<^verbatim>\<open>getContent\<close> read (ContentStorage.ts is not
    among the sources).
  \<^item> \<open>historyManager\<close>: the deployments reported to the \<^verbatim>\<open>HistoryManager\<close> by
    \<^verbatim>\<open>newEntityDeployment\<close>, in the order of the calls (HistoryManager.ts is not among
    the sources; how it files them is not modelled).
  \<^item> \<open>analytics\<close>: the deployments reported to \<^verbatim>\<open>ContentAnalytics.recordDeployment\<close>.
\<close>

record 'p ServiceImpl =
  entities :: "EntityId \<rightharpoonup> Entity"
  storage :: "string \<times> string \<rightharpoonup> Buffer"
  historyManager :: "HistoryEvent list"
  pointerManager :: 'p
  analytics :: "(ServerName \<times> Entity \<times> EthAddress) list"
  ignoreValidationErrors :: bool
  effects :: "Effect list"

datatype StorageCategory = CONTENTS | PROOFS | POINTERS

fun StorageCategory_value :: "StorageCategory \<Rightarrow> string" where
  "StorageCategory_value CONTENTS = ''contents''"
| "StorageCategory_value PROOFS = ''proofs''"
| "StorageCategory_value POINTERS = ''pointers''"

text \<open>
  \<^verbatim>\<open>resolveCategory(storageCategory, type?)\<close>; an absent or empty \<^verbatim>\<open>type\<close> is falsy.
\<close>

definition resolveCategory :: "StorageCategory \<Rightarrow> EntityType option \<Rightarrow> string" where
  "resolveCategory storageCategory type =
     StorageCategory_value storageCategory @
       (case type of
          Some t \<Rightarrow> if storageCategory = POINTERS \<and> t \<noteq> [] then ''-'' @ t else []
        | None \<Rightarrow> [])"

text \<open>
  Modelled from the spec: \<^verbatim>\<open>ContentStorage.store\<close> and \<^verbatim>\<open>ContentStorage.exists\<close>
  (ContentStorage.ts is not among the sources), after section 2: an "opaque
  category+key \<rightarrow> bytes store with exists/get/put/delete". A store overwrites, and is
  taken to succeed.
\<close>

definition storage_store :: "string \<Rightarrow> string \<Rightarrow> Buffer \<Rightarrow> 'p ServiceImpl \<Rightarrow> 'p ServiceImpl" where
  "storage_store category id' content this =
     this\<lparr> storage := (storage this)((category, id') \<mapsto> content),
           effects := effects this @ [StorageStore category id'] \<rparr>"

definition storage_exists :: "string \<Rightarrow> string \<Rightarrow> 'p ServiceImpl \<Rightarrow> bool" where
  "storage_exists category id' this = (storage this (category, id') \<noteq> None)"

text \<open>
  The calls on the pointer manager, the history manager and the analytics, as
  \<^verbatim>\<open>deployEntityWithServerAndTimestamp\<close> makes them.
\<close>

definition pointerManager_tryToCommitPointers ::
  "'p Collaborators \<Rightarrow> Entity \<Rightarrow> 'p ServiceImpl \<Rightarrow> CommitResult \<times> 'p ServiceImpl" where
  "pointerManager_tryToCommitPointers env entity this =
     (let (commitResult, pointers') = tryToCommitPointers env entity (pointerManager this)
      in (commitResult,
          this\<lparr> pointerManager := pointers',
                effects := effects this @ [PointersCommit (entity_id entity) (couldCommit commitResult)] \<rparr>))"

definition historyManager_newEntityDeployment ::
  "ServerName \<Rightarrow> Entity \<Rightarrow> Timestamp \<Rightarrow> 'p ServiceImpl \<Rightarrow> 'p ServiceImpl" where
  "historyManager_newEntityDeployment serverName entity deploymentTimestamp this =
     this\<lparr> historyManager := historyManager this @
              [\<lparr> event_serverName = serverName, event_entityType = entity_type entity,
                 event_entityId = entity_id entity, event_timestamp = deploymentTimestamp \<rparr>],
           effects := effects this @ [HistoryAppend (entity_id entity)] \<rparr>"

definition analytics_recordDeployment ::
  "ServerName \<Rightarrow> Entity \<Rightarrow> EthAddress \<Rightarrow> 'p ServiceImpl \<Rightarrow> 'p ServiceImpl" where
  "analytics_recordDeployment serverName entity address this =
     this\<lparr> analytics := analytics this @ [(serverName, entity, address)] \<rparr>"

subsection \<open>Reading entities\<close>

text \<open>
  \<^verbatim>\<open>getEntityById\<close>: the cache first, then the storage; an entity read from the storage
  is put in the cache. Both \<^verbatim>\<open>getContent\<close> on a missing id and a malformed descriptor
  throw inside the \<^verbatim>\<open>try\<close>, and the \<^verbatim>\<open>catch\<close> is empty.
\<close>

definition getEntityById ::
  "'p Collaborators \<Rightarrow> EntityId \<Rightarrow> 'p ServiceImpl \<Rightarrow> Entity option \<times> 'p ServiceImpl" where
  "getEntityById env id' this =
     (case entities this id' of
        Some entity \<Rightarrow> (Some entity, this)
      | None \<Rightarrow>
         (case storage this (StorageCategory_value CONTENTS, id') of
            None \<Rightarrow> (None, this)
          | Some buffer \<Rightarrow>
             (case EntityFactory_fromBufferWithId env buffer id' of
                None \<Rightarrow> (None, this)
              | Some entity \<Rightarrow> (Some entity, this\<lparr> entities := (entities this)(id' \<mapsto> entity) \<rparr>))))"

text \<open>\<^verbatim>\<open>ids.filter((elem, pos, array) => array.indexOf(elem) == pos)\<close>: first occurrences stay.\<close>

fun removeDuplicates :: "'a list \<Rightarrow> 'a list \<Rightarrow> 'a list" where
  "removeDuplicates seen [] = []"
| "removeDuplicates seen (elem # rest) =
     (if elem \<in> set seen then removeDuplicates seen rest
      else elem # removeDuplicates (elem # seen) rest)"

fun getEntitiesByIds_each ::
  "'p Collaborators \<Rightarrow> EntityId list \<Rightarrow> 'p ServiceImpl \<Rightarrow> Entity list \<times> 'p ServiceImpl" where
  "getEntitiesByIds_each env [] this = ([], this)"
| "getEntitiesByIds_each env (entityId # ids) this =
     (let (entity, this1) = getEntityById env entityId this;
          (found, this2) = getEntitiesByIds_each env ids this1
      in (case entity of None \<Rightarrow> (found, this2) | Some e \<Rightarrow> (e # found, this2)))"

definition getEntitiesByIds ::
  "'p Collaborators \<Rightarrow> EntityType \<Rightarrow> EntityId list \<Rightarrow> 'p ServiceImpl \<Rightarrow> Entity list \<times> 'p ServiceImpl" where
  "getEntitiesByIds env type ids this = getEntitiesByIds_each env (removeDuplicates [] ids) this"

definition getEntitiesByPointers ::
  "'p Collaborators \<Rightarrow> EntityType \<Rightarrow> Pointer list \<Rightarrow> 'p ServiceImpl \<Rightarrow> Entity list \<times> 'p ServiceImpl" where
  "getEntitiesByPointers env type pointers this =
     (let entityIds = List.map_filter (\<lambda>pointer. getEntityInPointer env (pointerManager this) type pointer) pointers
      in getEntitiesByIds env type entityIds this)"

text \<open>
  \<^verbatim>\<open>isContentAvailable\<close>: one \<^verbatim>\<open>storage.exists\<close> per hash, collected in a \<^verbatim>\<open>Map\<close>.
\<close>

definition isContentAvailable :: "FileHash list \<Rightarrow> 'p ServiceImpl \<Rightarrow> (FileHash, bool) JsMap" where
  "isContentAvailable fileHashes this =
     new_Map (map (\<lambda>fileHash. (fileHash, storage_exists (resolveCategory CONTENTS None) fileHash this)) fileHashes)"

text \<open>
  Modelled from the spec: \<^verbatim>\<open>Hashing.calculateHashes\<close> (Hashing.ts is not among the
  sources), step 6 of the deploy path, "hash all files": the \<^verbatim>\<open>Map<FileHash, File>\<close>
  from the hash of each file to the file.
\<close>

definition Hashing_calculateHashes :: "'p Collaborators \<Rightarrow> File list \<Rightarrow> (FileHash, File) JsMap" where
  "Hashing_calculateHashes env files = new_Map (map (\<lambda>file. (Hashing_calculateHash env file, file)) files)"

text \<open>
  Modelled from the spec: \<^verbatim>\<open>Validation.validateFreshDeployment\<close> (Validation.ts is not
  among the sources), step 5 of the deploy path: "for each pointer of E, fetch the
  current active entity and fail if [there is] a strictly-newer entity". The fetch is
  the callback ServiceImpl passes in, \<^verbatim>\<open>getEntitiesByPointers\<close>, which fills the cache.
\<close>

definition validateFreshDeployment ::
  "'p Collaborators \<Rightarrow> Entity \<Rightarrow> 'p ServiceImpl \<Rightarrow> string list \<times> 'p ServiceImpl" where
  "validateFreshDeployment env entity this =
     (let (currentPointedEntities, this1) =
            getEntitiesByPointers env (entity_type entity) (entity_pointers entity) this
      in (if list_ex (\<lambda>currentEntity. entity_timestamp entity < entity_timestamp currentEntity)
               currentPointedEntities
          then [''There is a newer entity pointed by one or more of the pointers you provided.'']
          else [],
          this1))"

subsection \<open>Deploying\<close>

text \<open>
  \<^verbatim>\<open>storeEntityContent\<close>. \<^verbatim>\<open>alreadyStoredHashes.get(h)\<close> is \<^verbatim>\<open>undefined\<close>, hence falsy, for
  a hash the map does not hold. \<^verbatim>\<open>hashes.get(entityId)\<close> may be \<^verbatim>\<open>undefined\<close> too, and
  reading \<^verbatim>\<open>.content\<close> of it throws. The stores of \<^verbatim>\<open>Promise.all\<close> are started in the
  order of the map's entries.
\<close>

definition storeEntityContent ::
  "(FileHash, File) JsMap \<Rightarrow> (FileHash, bool) JsMap \<Rightarrow> EntityId \<Rightarrow> bool \<Rightarrow> 'p ServiceImpl \<Rightarrow>
   Exception + 'p ServiceImpl" where
  "storeEntityContent hashes alreadyStoredHashes entityId couldCommit' this =
     (if couldCommit' then
        Inr (foldl (\<lambda>this' (fileHash, file).
                      storage_store (resolveCategory CONTENTS None) fileHash (file_content file) this')
               this
               (filter (\<lambda>(fileHash, file). map_of alreadyStoredHashes fileHash \<noteq> Some True) hashes))
      else if map_of alreadyStoredHashes entityId \<noteq> Some True then
        (case map_of hashes entityId of
           None \<Rightarrow> Inl TypeError_UndefinedProperty
         | Some entityFile \<Rightarrow>
             Inr (storage_store (resolveCategory CONTENTS None) entityId (file_content entityFile) this))
      else Inr this)"

text \<open>
  \<^verbatim>\<open>deployEntityWithServerAndTimestamp\<close>, lines 105 to 132: from the comment
  "IF THIS POINT WAS REACHED, THEN THE DEPLOYMENT WILL BE COMMITED" to the end.
\<close>

definition commitDeployment ::
  "'p Collaborators \<Rightarrow> Entity \<Rightarrow> (FileHash, File) JsMap \<Rightarrow> (FileHash, bool) JsMap \<Rightarrow>
   EntityId \<Rightarrow> EthAddress \<Rightarrow> Signature \<Rightarrow> ServerName \<Rightarrow> (unit \<Rightarrow> Timestamp) \<Rightarrow>
   'p ServiceImpl \<Rightarrow> (Exception + Timestamp) \<times> 'p ServiceImpl" where
  "commitDeployment env entity hashes alreadyStoredHashes entityId address sig serverName
       timestampCalculator this =
     (let (commitResult, this1) = pointerManager_tryToCommitPointers env entity this;
          this2 = this1\<lparr> entities :=
                    foldl (\<lambda>cache deleted. cache(deleted := None)) (entities this1)
                      (entitiesDeleted commitResult) \<rparr>
      in case storeEntityContent hashes alreadyStoredHashes entityId (couldCommit commitResult) this2 of
           Inl err \<Rightarrow> (Inl err, this2)
         | Inr this3 \<Rightarrow>
            (let deploymentTimestamp = timestampCalculator ();
                 auditInfo = \<lparr> audit_deployedTimestamp = deploymentTimestamp,
                               audit_ethAddress = address, audit_signature = sig \<rparr>;
                 this4 = storage_store (resolveCategory PROOFS None) (entity_id entity)
                           (JSON_stringify env auditInfo) this3;
                 this5 = historyManager_newEntityDeployment serverName entity deploymentTimestamp this4;
                 this6 = analytics_recordDeployment (getServerName env) entity address this5
             in (Inr deploymentTimestamp, this6)))"

text \<open>
  \<^verbatim>\<open>deployEntityWithServerAndTimestamp\<close>, lines 72 to 103: the validations, up to the
  \<^verbatim>\<open>throw\<close> of the collected errors, and then the commit.
\<close>

definition validateDeployment ::
  "'p Collaborators \<Rightarrow> File list \<Rightarrow> File \<Rightarrow> EntityId \<Rightarrow> EthAddress \<Rightarrow> Signature \<Rightarrow> ServerName \<Rightarrow>
   (unit \<Rightarrow> Timestamp) \<Rightarrow> bool \<Rightarrow> 'p ServiceImpl \<Rightarrow> (Exception + Timestamp) \<times> 'p ServiceImpl" where
  "validateDeployment env files entityFile entityId address sig serverName timestampCalculator
       checkFreshness this =
     (let errors1 = validateSignature env entityId address sig;
          errors2 = validateRequestSize env files
      in case EntityFactory_fromFile env entityFile entityId of
           None \<Rightarrow> (Inl EntityParseError, this)
         | Some entity \<Rightarrow>
            (let errors3 = validateEntity env entity;
                 errors4 = validateAccess env (entity_pointers entity) address (entity_type entity);
                 (errors5, this1) =
                    (if checkFreshness then validateFreshDeployment env entity this else ([], this));
                 errors6 = validateType env entity;
                 hashes = Hashing_calculateHashes env files;
                 alreadyStoredHashes = isContentAvailable (map fst hashes) this1;
                 errors7 = validateHashes env entity hashes alreadyStoredHashes;
                 errors = errors1 @ errors2 @ errors3 @ errors4 @ errors5 @ errors6 @ errors7
             in if \<not> ignoreValidationErrors this1 \<and> length errors > 0
                then (Inl (ValidationErrors errors), this1)
                else commitDeployment env entity hashes alreadyStoredHashes entityId address sig
                       serverName timestampCalculator this1))"

text \<open>\<^verbatim>\<open>deployEntityWithServerAndTimestamp\<close>, from its first line.\<close>

definition deployEntityWithServerAndTimestamp ::
  "'p Collaborators \<Rightarrow> File list \<Rightarrow> EntityId \<Rightarrow> EthAddress \<Rightarrow> Signature \<Rightarrow> ServerName \<Rightarrow>
   (unit \<Rightarrow> Timestamp) \<Rightarrow> bool \<Rightarrow> 'p ServiceImpl \<Rightarrow> (Exception + Timestamp) \<times> 'p ServiceImpl" where
  "deployEntityWithServerAndTimestamp env files entityId address sig serverName timestampCalculator
       checkFreshness this =
     (case findEntityFile files of
        Inl err \<Rightarrow> (Inl err, this)
      | Inr entityFile \<Rightarrow>
         if entityId \<noteq> Hashing_calculateHash env entityFile then (Inl EntityHashMismatch, this)
         else validateDeployment env files entityFile entityId address sig serverName
                timestampCalculator checkFreshness this)"

definition deployEntity ::
  "'p Collaborators \<Rightarrow> File list \<Rightarrow> EntityId \<Rightarrow> EthAddress \<Rightarrow> Signature \<Rightarrow> 'p ServiceImpl \<Rightarrow>
   (Exception + Timestamp) \<times> 'p ServiceImpl" where
  "deployEntity env files entityId address sig this =
     deployEntityWithServerAndTimestamp env files entityId address sig (getServerName env)
       (\<lambda>_. Date_now env) True this"

text \<open>
  \<^verbatim>\<open>deployEntityFromAnotherContentServer\<close> awaits the deployment and returns nothing
  (\<^verbatim>\<open>Promise<void>\<close>).
\<close>

definition deployEntityFromAnotherContentServer ::
  "'p Collaborators \<Rightarrow> File list \<Rightarrow> EntityId \<Rightarrow> EthAddress \<Rightarrow> Signature \<Rightarrow> ServerName \<Rightarrow>
   Timestamp \<Rightarrow> 'p ServiceImpl \<Rightarrow> (Exception + unit) \<times> 'p ServiceImpl" where
  "deployEntityFromAnotherContentServer env files entityId address sig serverName
       deploymentTimestamp this =
     (case deployEntityWithServerAndTimestamp env files entityId address sig serverName
             (\<lambda>_. deploymentTimestamp) False this of
        (Inl err, this') \<Rightarrow> (Inl err, this')
      | (Inr _, this') \<Rightarrow> (Inr (), this'))"

text \<open>\<^verbatim>\<open>ServiceImpl.getStatus\<close>: the object literal has three fields.\<close>

definition getStatus :: "'p Collaborators \<Rightarrow> 'p ServiceImpl \<Rightarrow> ServerStatus" where
  "getStatus env this =
     \<lparr> status_name = getServerName env, status_version = ''1.0'',
       status_currentTime = Date_now env, status_lastImmutableTime = None \<rparr>"

section \<open>The pointer manager\<close>

text \<open>
  Modelled from the spec: \<^verbatim>\<open>PointerManager.tryToCommitPointers\<close> (PointerManager.ts is
  not among the sources), after the contract \<^verbatim>\<open>tryToCommit\<close> of section 4.2. The pointer
  state gives, for a type and a pointer, the active entity if there is one.
  \<^enum> The distinct incumbents are the active entities of the pointers of E.
  \<^enum> If an incumbent has \<open>(timestamp, id)\<close> greater than or equal to that of E,
    lexicographically, E is shadowed: \<^verbatim>\<open>couldCommit = false\<close>, nothing is deleted, no
    pointer is moved.
  \<^enum> Otherwise every pointer of E is set to E, and an incumbent none of whose other
    pointers still points to it is orphaned and reported in \<^verbatim>\<open>entitiesDeleted\<close>.
\<close>

type_synonym PointerState = "EntityType \<times> Pointer \<rightharpoonup> Entity"

definition shadows :: "Entity \<Rightarrow> Entity \<Rightarrow> bool" where
  "shadows current entity =
     (entity_timestamp entity < entity_timestamp current \<or>
      (entity_timestamp current = entity_timestamp entity \<and> entity_id entity \<le> entity_id current))"

definition tryToCommit :: "Entity \<Rightarrow> PointerState \<Rightarrow> CommitResult \<times> PointerState" where
  "tryToCommit entity pointers =
     (let incumbents = remdups (List.map_filter (\<lambda>p. pointers (entity_type entity, p))
                                  (entity_pointers entity))
      in if list_ex (\<lambda>current. shadows current entity) incumbents
         then (\<lparr> couldCommit = False, entitiesDeleted = [] \<rparr>, pointers)
         else
           (let pointers' = foldl (\<lambda>m p. m((entity_type entity, p) \<mapsto> entity)) pointers
                              (entity_pointers entity);
                orphaned = filter (\<lambda>current.
                              \<not> list_ex (\<lambda>p. p \<notin> set (entity_pointers entity) \<and>
                                             pointers' (entity_type current, p) = Some current)
                                  (entity_pointers current))
                            incumbents
            in (\<lparr> couldCommit = True, entitiesDeleted = map entity_id orphaned \<rparr>, pointers')))"

definition activeEntityId :: "PointerState \<Rightarrow> EntityType \<Rightarrow> Pointer \<Rightarrow> EntityId option" where
  "activeEntityId pointers type pointer = map_option entity_id (pointers (type, pointer))"

section \<open>Validations\<close>

text \<open>
  Validations.ts is not among the sources; its unit test, Validations.spec.ts, is. A
  validation returns \<^verbatim>\<open>undefined\<close> (\<open>None\<close>) or the list of its errors.
\<close>

definition minutes :: "int \<Rightarrow> int" where
  "minutes n = n * 60 * 1000"

definition DEFAULT_REQUEST_TTL_BACKWARDS :: int where
  "DEFAULT_REQUEST_TTL_BACKWARDS = minutes 10"

definition DEFAULT_REQUEST_TTL_FORWARDS :: int where
  "DEFAULT_REQUEST_TTL_FORWARDS = minutes 5"

definition notRecentEnoughMessage :: string where
  "notRecentEnoughMessage =
     ''The request is not recent enough, please submit it again with a new timestamp.''"

definition tooFarInTheFutureMessage :: string where
  "tooFarInTheFutureMessage =
     ''The request is too far in the future, please submit it again with a new timestamp.''"

text \<open>
  Modelled from the spec: \<^verbatim>\<open>Validations.RECENT\<close>, section 4.1: it "fails if
  \<open>|now - entity.timestamp| > ttl_backwards\<close> in the past, or \<open>> ttl_forward\<close> in the
  future". The two messages are those the unit test expects. \<open>now\<close> is the clock of
  the server, the two bounds are its configuration.
\<close>

definition RECENT :: "Timestamp \<Rightarrow> int \<Rightarrow> int \<Rightarrow> Entity \<Rightarrow> string list option" where
  "RECENT now ttlBackwards ttlForwards entity =
     (if now - entity_timestamp entity > ttlBackwards then Some [notRecentEnoughMessage]
      else if entity_timestamp entity - now > ttlForwards then Some [tooFarInTheFutureMessage]
      else None)"

definition notAvailableHashMessage :: "FileHash \<Rightarrow> string" where
  "notAvailableHashMessage hash =
     ''This hash is referenced in the entity but was not uploaded or previously available: '' @ hash"

definition notReferencedHashMessage :: "FileHash \<Rightarrow> string" where
  "notReferencedHashMessage hash =
     ''This hash was uploaded but is not referenced in the entity: '' @ hash"

text \<open>
  Modelled from the spec: \<^verbatim>\<open>Validations.CONTENT\<close>, section 4.1: "every hash referenced
  in entity.content must be present in the uploaded file map OR reported as already
  stored by externalCalls.isContentStoredAlready; every uploaded hash must be
  referenced (no orphan uploads). Exception: the entity-file hash itself is always
  legitimate." The uploaded files are a \<^verbatim>\<open>Map\<close> from hash to bytes;
  \<open>isContentStoredAlready\<close> answers with a \<^verbatim>\<open>Map\<close> from hash to boolean, and a hash it
  does not hold reads as \<^verbatim>\<open>undefined\<close>. The messages are those of the unit test.
\<close>

definition CONTENT ::
  "(FileHash list \<Rightarrow> (FileHash, bool) JsMap) \<Rightarrow> Entity \<Rightarrow> (FileHash, Buffer) JsMap \<Rightarrow>
   string list option" where
  "CONTENT isContentStoredAlready entity files =
     (let referenced = contentValues entity;
          alreadyStoredHashes = isContentStoredAlready referenced;
          notAvailable = map notAvailableHashMessage
             (filter (\<lambda>hash. \<not> (hash \<in> set (map fst files) \<or>
                                  map_of alreadyStoredHashes hash = Some True)) referenced);
          notReferenced = map notReferencedHashMessage
             (filter (\<lambda>hash. hash \<notin> set referenced \<and> hash \<noteq> entity_id entity) (map fst files));
          errors = notAvailable @ notReferenced
      in if errors = [] then None else Some errors)"

definition tooBigMessage :: string where
  "tooBigMessage = ''The deployment is too big. The maximum allowed size per pointer is ''"

text \<open>
  Modelled from the spec: \<^verbatim>\<open>Validations.REQUEST_SIZE_V3\<close>, section 4.1: the "sum of
  uploaded file sizes divided by len(pointers) must not exceed
  maxUploadSizePerTypeInMB[type]". Sizes are in bytes and a megabyte is 1024 * 1024
  bytes, as in the unit test; the division is that of JavaScript numbers, not an
  integer division. The spec says nothing of a type without a configured limit: no
  limit is exceeded then. The pointers of an entity are not empty (section 3).
\<close>

definition REQUEST_SIZE_V3 ::
  "(EntityType \<rightharpoonup> real) \<Rightarrow> Entity \<Rightarrow> (FileHash, Buffer) JsMap \<Rightarrow> string list option" where
  "REQUEST_SIZE_V3 maxUploadSizePerTypeInMB entity files =
     (case maxUploadSizePerTypeInMB (entity_type entity) of
        None \<Rightarrow> None
      | Some maxSizeInMB \<Rightarrow>
         (let maxSizeInBytes = maxSizeInMB * 1024 * 1024;
              totalSize = sum_list (map (\<lambda>(hash, content). length content) files);
              sizePerPointer = real totalSize / real (length (entity_pointers entity))
          in if sizePerPointer > maxSizeInBytes then Some [tooBigMessage] else None))"

text \<open>\<^verbatim>\<open>getFileWithSize(sizeInMB)\<close> and \<^verbatim>\<open>buildEntity\<close> of the unit test.\<close>

definition getFileWithSize :: "nat \<Rightarrow> (FileHash, Buffer) JsMap" where
  "getFileWithSize sizeInMB = [(''someHash'', replicate (sizeInMB * 1024 * 1024) 0)]"

definition buildEntity :: "Pointer list \<Rightarrow> Timestamp \<Rightarrow> (string \<times> FileHash) list option \<Rightarrow> Entity" where
  "buildEntity pointers timestamp content =
     \<lparr> entity_id = ''id'', entity_type = ''scene'', entity_pointers = pointers,
       entity_timestamp = timestamp, entity_content = content, entity_metadata = None \<rparr>"

section \<open>Example deployments\<close>

text \<open>
  A server with empty storage and no active pointer, collaborators that accept
  everything, and two requests on pointer 0,0: scene E1, stamped 1000, with the content
  file h1, and scene E0, stamped 500, with the content file h2.
\<close>

definition example_hash :: "File \<Rightarrow> FileHash" where
  "example_hash file =
     (if file_content file = [1, 2, 3] then ''E1''
      else if file_content file = [4, 5, 6] then ''E0''
      else if file_content file = [7] then ''h1'' else ''h2'')"

definition example_entity :: Entity where
  "example_entity = \<lparr> entity_id = ''E1'', entity_type = ''scene'', entity_pointers = [''0,0''],
      entity_timestamp = 1000, entity_content = Some [(''a.png'', ''h1'')], entity_metadata = None \<rparr>"

definition older_entity :: Entity where
  "older_entity = \<lparr> entity_id = ''E0'', entity_type = ''scene'', entity_pointers = [''0,0''],
      entity_timestamp = 500, entity_content = Some [(''b.png'', ''h2'')], entity_metadata = None \<rparr>"

definition example_fromFile :: "File \<Rightarrow> EntityId \<Rightarrow> Entity option" where
  "example_fromFile file entityId =
     (if file_content file = [1, 2, 3] then Some example_entity
      else if file_content file = [4, 5, 6] then Some older_entity
      else None)"

definition example_env :: "PointerState Collaborators" where
  "example_env =
     \<lparr> Hashing_calculateHash = example_hash,
       EntityFactory_fromFile = example_fromFile,
       EntityFactory_fromBufferWithId =
         (\<lambda>buffer entityId. example_fromFile \<lparr> file_name = ''entity.json'', file_content = buffer \<rparr> entityId),
       JSON_stringify = (\<lambda>auditInfo. [nat (audit_deployedTimestamp auditInfo)]),
       validateSignature = (\<lambda>entityId address sig. []),
       validateRequestSize = (\<lambda>files. []),
       validateEntity = (\<lambda>entity. []),
       validateAccess = (\<lambda>pointers address type. []),
       validateType = (\<lambda>entity. []),
       validateHashes = (\<lambda>entity hashes alreadyStoredHashes. []),
       tryToCommitPointers = tryToCommit,
       getEntityInPointer = activeEntityId,
       getServerName = ''server-1'',
       Date_now = 2000 \<rparr>"

definition example_files :: "File list" where
  "example_files =
     [\<lparr> file_name = ''entity.json'', file_content = [1, 2, 3] \<rparr>,
      \<lparr> file_name = ''a.png'', file_content = [7] \<rparr>]"

definition older_files :: "File list" where
  "older_files =
     [\<lparr> file_name = ''entity.json'', file_content = [4, 5, 6] \<rparr>,
      \<lparr> file_name = ''b.png'', file_content = [8] \<rparr>]"

definition empty_service :: "PointerState ServiceImpl" where
  "empty_service =
     \<lparr> entities = Map.empty, storage = Map.empty, historyManager = [],
       pointerManager = Map.empty, analytics = [], ignoreValidationErrors = False,
       effects = [] \<rparr>"

section \<open>Auxiliary definitions\<close>

text \<open>Storing a list of map entries in the contents category, one after the other.\<close>

definition storeAll :: "'p ServiceImpl \<Rightarrow> (FileHash \<times> File) list \<Rightarrow> 'p ServiceImpl" where
  "storeAll this kvs = foldl (\<lambda>this' (fileHash, file).
        storage_store ''contents'' fileHash (file_content file) this') this kvs"

text \<open>What \<^verbatim>\<open>storeEntityContent\<close> stores, as a list of entries of \<open>hashes\<close>.\<close>

definition contentToStore ::
  "(FileHash, File) JsMap \<Rightarrow> (FileHash, bool) JsMap \<Rightarrow> EntityId \<Rightarrow> bool \<Rightarrow> (FileHash \<times> File) list" where
  "contentToStore hashes alreadyStoredHashes entityId couldCommit' =
     (if couldCommit' then filter (\<lambda>kv. map_of alreadyStoredHashes (fst kv) \<noteq> Some True) hashes
      else filter (\<lambda>kv. fst kv = entityId \<and> map_of alreadyStoredHashes entityId \<noteq> Some True) hashes)"

text \<open>
  The reading of section 4.6 of the specification, "fans out to the currently-Active
  peers and returns the first success": the value of the first server, in the order of
  the cluster, whose call returns a promise that resolves.
\<close>

fun firstSuccess ::
  "(ContentServerClient \<Rightarrow> 'a Promise Completion) \<Rightarrow> ContentServerClient list \<Rightarrow> 'a option" where
  "firstSuccess call [] = None"
| "firstSuccess call (server # servers) =
     (case call server of
        Returns (Resolved result) \<Rightarrow> Some result
      | _ \<Rightarrow> firstSuccess call servers)"

text \<open>The example server once E1 is deployed on it.\<close>

definition deployed_service :: "PointerState ServiceImpl" where
  "deployed_service =
     snd (deployEntity example_env example_files ''E1'' ''0xabc'' ''sig'' empty_service)"

text \<open>
  The order of section 4.5 of the specification, "Storage \<rightarrow> Pointers \<rightarrow> History", read
  on a record of effects: once the pointers are committed, no content blob is stored.
\<close>

fun isPointersCommit :: "Effect \<Rightarrow> bool" where
  "isPointersCommit (PointersCommit entityId committed) = True"
| "isPointersCommit _ = False"

fun isContentStore :: "Effect \<Rightarrow> bool" where
  "isContentStore (StorageStore category id') = (category = ''contents'')"
| "isContentStore _ = False"

definition storageBeforePointers :: "Effect list \<Rightarrow> bool" where
  "storageBeforePointers es = (\<not> list_ex isContentStore (dropWhile (\<lambda>e. \<not> isPointersCommit e) es))"

definition example_cluster :: ContentCluster where
  "example_cluster = \<lparr> getAllActiveServersInCluster = [failing_peer, answering_peer] \<rparr>"

definition two_entity_files :: "File list" where
  "two_entity_files =
     [\<lparr> file_name = ''entity.json'', file_content = [1, 2, 3] \<rparr>,
      \<lparr> file_name = ''entity.json'', file_content = [4, 5, 6] \<rparr>]"

section \<open>Results\<close>

subsection \<open>JavaScript maps\<close>

lemma resolveCategory_CONTENTS [simp]: "resolveCategory CONTENTS None = ''contents''"
  by (simp add: resolveCategory_def)

lemma resolveCategory_PROOFS [simp]: "resolveCategory PROOFS None = ''proofs''"
  by (simp add: resolveCategory_def)

lemma map_fst_Map_set:
  "map fst (Map_set m k v) = (if k \<in> set (map fst m) then map fst m else map fst m @ [k])"
proof -
  have "map fst (map (\<lambda>(k', old). if k' = k then (k', v) else (k', old)) m) = map fst m"
    by (induction m) auto
  then show ?thesis by (simp add: Map_set_def)
qed

lemma map_of_replace:
  "k \<in> fst ` set m \<Longrightarrow>
   map_of (map (\<lambda>(k', old). if k' = k then (k', v) else (k', old)) m) = (map_of m)(k \<mapsto> v)"
proof (induction m)
  case Nil
  then show ?case by simp
next
  case (Cons a m)
  obtain k' old where a: "a = (k', old)" by (cases a)
  show ?case
  proof (cases "k' = k")
    case True
    have "map_of (map (\<lambda>(k', old). if k' = k then (k', v) else (k', old)) m) k'' = map_of m k''"
      if "k'' \<noteq> k" for k''
      using that by (induction m) auto
    then show ?thesis using a True by (auto simp: fun_eq_iff)
  next
    case False
    with Cons a have "map_of (map (\<lambda>(k', old). if k' = k then (k', v) else (k', old)) m) = (map_of m)(k \<mapsto> v)"
      by auto
    then show ?thesis using a False by (auto simp: fun_eq_iff)
  qed
qed

lemma map_of_Map_set: "map_of (Map_set m k v) = (map_of m)(k \<mapsto> v)"
proof (cases "k \<in> fst ` set m")
  case True
  then show ?thesis by (simp add: Map_set_def map_of_replace)
next
  case False
  then have "map_of m k = None" by (simp add: map_of_eq_None_iff)
  then have "map_of (m @ [(k, v)]) = (map_of m)(k \<mapsto> v)"
    by (auto simp: fun_eq_iff map_add_def split: option.splits)
  with False show ?thesis by (simp add: Map_set_def)
qed

lemma foldl_Map_set_keys:
  "fst ` set (foldl (\<lambda>m (k, v). Map_set m k v) m0 es) = fst ` set m0 \<union> fst ` set es"
proof (induction es arbitrary: m0)
  case Nil
  then show ?case by simp
next
  case (Cons e es)
  obtain k v where e: "e = (k, v)" by (cases e)
  have "set (map fst (Map_set m0 k v)) = insert k (set (map fst m0))"
    by (auto simp: map_fst_Map_set)
  then have "fst ` set (Map_set m0 k v) = insert k (fst ` set m0)"
    by simp
  with Cons[of "Map_set m0 k v"] e show ?case by auto
qed

lemma foldl_Map_set_distinct:
  "distinct (map fst m0) \<Longrightarrow> distinct (map fst (foldl (\<lambda>m (k, v). Map_set m k v) m0 es))"
proof (induction es arbitrary: m0)
  case Nil
  then show ?case by simp
next
  case (Cons e es)
  obtain k v where e: "e = (k, v)" by (cases e)
  from Cons.prems have "distinct (map fst (Map_set m0 k v))"
    by (simp add: map_fst_Map_set)
  from Cons.IH[OF this] e show ?case by simp
qed

lemma foldl_Map_set_map_of:
  "map_of (foldl (\<lambda>m (k, v). Map_set m k v) m0 es) = map_of m0 ++ map_of (rev es)"
proof (induction es arbitrary: m0)
  case Nil
  then show ?case by simp
next
  case (Cons e es)
  obtain k v where e: "e = (k, v)" by (cases e)
  have "map_of (foldl (\<lambda>m (k, v). Map_set m k v) (Map_set m0 k v) es) =
        (map_of m0)(k \<mapsto> v) ++ map_of (rev es)"
    unfolding Cons.IH map_of_Map_set ..
  also have "\<dots> = map_of m0 ++ map_of (rev es @ [(k, v)])"
    by (auto simp: fun_eq_iff map_add_def split: option.splits)
  finally show ?case using e by simp
qed

lemma new_Map_keys: "fst ` set (new_Map es) = fst ` set es"
  by (simp add: new_Map_def foldl_Map_set_keys)

lemma new_Map_distinct: "distinct (map fst (new_Map es))"
  by (simp add: new_Map_def foldl_Map_set_distinct)

lemma new_Map_map_of: "map_of (new_Map es) = map_of (rev es)"
  by (simp add: new_Map_def foldl_Map_set_map_of)

lemma isContentAvailable_get:
  "map_of (isContentAvailable hs this) h =
     (if h \<in> set hs then Some (storage this (''contents'', h) \<noteq> None) else None)"
proof -
  have "map_of (map (\<lambda>k. (k, storage this (''contents'', k) \<noteq> None)) (rev hs)) h =
        (if h \<in> set hs then Some (storage this (''contents'', h) \<noteq> None) else None)"
    by (simp add: map_of_map_restrict restrict_map_def)
  then show ?thesis
    by (simp add: isContentAvailable_def new_Map_map_of storage_exists_def rev_map)
qed

lemma calculateHashes_keys:
  "fst ` set (Hashing_calculateHashes env files) = Hashing_calculateHash env ` set files"
  by (simp add: Hashing_calculateHashes_def new_Map_keys image_image)

lemma calculateHashes_distinct: "distinct (map fst (Hashing_calculateHashes env files))"
  by (simp add: Hashing_calculateHashes_def new_Map_distinct)

lemma calculateHashes_get:
  assumes "map_of (Hashing_calculateHashes env files) h = Some file"
  shows "file \<in> set files \<and> Hashing_calculateHash env file = h"
proof -
  from assms have "(h, file) \<in> set (rev (map (\<lambda>file. (Hashing_calculateHash env file, file)) files))"
    unfolding Hashing_calculateHashes_def new_Map_map_of by (rule map_of_SomeD)
  then show ?thesis by auto
qed

lemma calculateHashes_defined:
  assumes "file \<in> set files"
  shows "map_of (Hashing_calculateHashes env files) (Hashing_calculateHash env file) \<noteq> None"
proof -
  from assms have "Hashing_calculateHash env file \<in> fst ` set (Hashing_calculateHashes env files)"
    unfolding calculateHashes_keys by simp
  then show ?thesis by (simp add: map_of_eq_None_iff)
qed

subsection \<open>The validations touch the cache only\<close>

lemma getEntityById_cache_only:
  "\<exists>cache. snd (getEntityById env i this) = this\<lparr> entities := cache \<rparr>"
proof (cases "entities this i")
  case None
  show ?thesis
  proof (cases "storage this (''contents'', i)")
    case N2: None
    have "snd (getEntityById env i this) = this\<lparr> entities := entities this \<rparr>"
      using None N2 by (simp add: getEntityById_def)
    then show ?thesis by blast
  next
    case (Some buffer)
    show ?thesis
    proof (cases "EntityFactory_fromBufferWithId env buffer i")
      case N3: None
      have "snd (getEntityById env i this) = this\<lparr> entities := entities this \<rparr>"
        using None Some N3 by (simp add: getEntityById_def)
      then show ?thesis by blast
    next
      case S3: (Some entity)
      have "snd (getEntityById env i this) = this\<lparr> entities := (entities this)(i \<mapsto> entity) \<rparr>"
        using None Some S3 by (simp add: getEntityById_def)
      then show ?thesis by blast
    qed
  qed
next
  case (Some entity)
  have "snd (getEntityById env i this) = this\<lparr> entities := entities this \<rparr>"
    using Some by (simp add: getEntityById_def)
  then show ?thesis by blast
qed

lemma getEntitiesByIds_each_cache_only:
  "\<exists>cache. snd (getEntitiesByIds_each env ids this) = this\<lparr> entities := cache \<rparr>"
proof (induction ids arbitrary: this)
  case Nil
  have "snd (getEntitiesByIds_each env [] this) = this\<lparr> entities := entities this \<rparr>" by simp
  then show ?case by blast
next
  case (Cons i ids)
  obtain entity this1 where one: "getEntityById env i this = (entity, this1)"
    by (cases "getEntityById env i this")
  obtain found this2 where rest: "getEntitiesByIds_each env ids this1 = (found, this2)"
    by (cases "getEntitiesByIds_each env ids this1")
  from getEntityById_cache_only[of env i this] one
  obtain cache1 where c1: "this1 = this\<lparr> entities := cache1 \<rparr>" by auto
  from Cons[of this1] rest obtain cache2 where c2: "this2 = this1\<lparr> entities := cache2 \<rparr>" by auto
  have "snd (getEntitiesByIds_each env (i # ids) this) = this2"
    using one rest by (simp split: option.splits)
  also have "\<dots> = this\<lparr> entities := cache2 \<rparr>" using c1 c2 by simp
  finally show ?case by blast
qed

lemma validateFreshDeployment_cache_only:
  "\<exists>cache. snd (validateFreshDeployment env entity this) = this\<lparr> entities := cache \<rparr>"
proof -
  from getEntitiesByIds_each_cache_only
  obtain cache where "snd (getEntitiesByPointers env (entity_type entity) (entity_pointers entity) this)
      = this\<lparr> entities := cache \<rparr>"
    unfolding getEntitiesByPointers_def getEntitiesByIds_def Let_def by blast
  then have "snd (validateFreshDeployment env entity this) = this\<lparr> entities := cache \<rparr>"
    by (simp add: validateFreshDeployment_def split_beta)
  then show ?thesis by blast
qed

lemma storeAll_Nil: "storeAll this [] = this"
  by (simp add: storeAll_def)

lemma storeAll_Cons:
  "storeAll this ((h, f) # kvs) = storeAll (storage_store ''contents'' h (file_content f) this) kvs"
  by (simp add: storeAll_def)

lemma storeAll_effects:
  "effects (storeAll this kvs) = effects this @ map (\<lambda>kv. StorageStore ''contents'' (fst kv)) kvs"
proof (induction kvs arbitrary: this)
  case Nil
  then show ?case by (simp add: storeAll_Nil)
next
  case (Cons kv kvs)
  obtain h f where kv: "kv = (h, f)" by (cases kv)
  show ?case unfolding kv storeAll_Cons Cons.IH by (simp add: storage_store_def)
qed

lemma storeAll_storage:
  "distinct (map fst kvs) \<Longrightarrow>
   storage (storeAll this kvs) (c, k) =
     (if c = ''contents'' \<and> k \<in> fst ` set kvs then map_option file_content (map_of kvs k)
      else storage this (c, k))"
proof (induction kvs arbitrary: this)
  case Nil
  then show ?case by (simp add: storeAll_Nil)
next
  case (Cons kv kvs)
  obtain h f where kv: "kv = (h, f)" by (cases kv)
  from Cons.prems kv have d: "distinct (map fst kvs)" and nin: "h \<notin> fst ` set kvs" by auto
  have step: "storage (storage_store ''contents'' h (file_content f) this) (c, k) =
      (if c = ''contents'' \<and> k = h then Some (file_content f) else storage this (c, k))"
    by (simp add: storage_store_def)
  show ?case unfolding kv storeAll_Cons Cons.IH[OF d] step using nin by auto
qed

lemma storeAll_others:
  "entities (storeAll this kvs) = entities this \<and>
   pointerManager (storeAll this kvs) = pointerManager this \<and>
   historyManager (storeAll this kvs) = historyManager this \<and>
   analytics (storeAll this kvs) = analytics this \<and>
   ignoreValidationErrors (storeAll this kvs) = ignoreValidationErrors this"
proof (induction kvs arbitrary: this)
  case Nil
  then show ?case by (simp add: storeAll_Nil)
next
  case (Cons kv kvs)
  obtain h f where kv: "kv = (h, f)" by (cases kv)
  show ?case
    using Cons.IH[of "storage_store ''contents'' h (file_content f) this"]
    by (simp add: kv storeAll_Cons storage_store_def)
qed

lemma storeEntityContent_committed:
  "storeEntityContent hashes alreadyStoredHashes entityId True this =
     Inr (storeAll this (filter (\<lambda>kv. map_of alreadyStoredHashes (fst kv) \<noteq> Some True) hashes))"
  by (simp add: storeEntityContent_def storeAll_def split_def)

lemma storeEntityContent_shadowed:
  "storeEntityContent hashes alreadyStoredHashes entityId False this =
     (if map_of alreadyStoredHashes entityId \<noteq> Some True then
        (case map_of hashes entityId of
           None \<Rightarrow> Inl TypeError_UndefinedProperty
         | Some entityFile \<Rightarrow> Inr (storeAll this [(entityId, entityFile)]))
      else Inr (storeAll this []))"
  by (simp add: storeEntityContent_def storeAll_def split: option.splits)

lemma filter_key_distinct:
  "distinct (map fst kvs) \<Longrightarrow> map_of kvs k = Some v \<Longrightarrow> filter (\<lambda>kv. fst kv = k) kvs = [(k, v)]"
proof (induction kvs)
  case Nil
  then show ?case by simp
next
  case (Cons a kvs)
  obtain k' v' where a: "a = (k', v')" by (cases a)
  show ?case
  proof (cases "k' = k")
    case True
    with Cons.prems a have "v' = v" and "k \<notin> fst ` set kvs" by auto
    then have "filter (\<lambda>kv. fst kv = k) kvs = []"
      by (auto simp: filter_empty_conv)
    with True a \<open>v' = v\<close> show ?thesis by simp
  next
    case False
    with Cons a show ?thesis by auto
  qed
qed

lemma storeEntityContent_defined:
  assumes "distinct (map fst hashes)" and "map_of hashes entityId \<noteq> None"
  shows "storeEntityContent hashes alreadyStoredHashes entityId cc this =
           Inr (storeAll this (contentToStore hashes alreadyStoredHashes entityId cc))"
proof (cases cc)
  case True
  then show ?thesis by (simp add: storeEntityContent_committed contentToStore_def)
next
  case False
  from assms(2) obtain entityFile where f: "map_of hashes entityId = Some entityFile" by auto
  have one: "filter (\<lambda>kv. fst kv = entityId) hashes = [(entityId, entityFile)]"
    by (rule filter_key_distinct[OF assms(1) f])
  show ?thesis
  proof (cases "map_of alreadyStoredHashes entityId \<noteq> Some True")
    case True
    then have "contentToStore hashes alreadyStoredHashes entityId False = [(entityId, entityFile)]"
      using one by (simp add: contentToStore_def)
    with False True f show ?thesis by (simp add: storeEntityContent_shadowed)
  next
    case F2: False
    then have "contentToStore hashes alreadyStoredHashes entityId False = []"
      by (simp add: contentToStore_def)
    with False F2 show ?thesis by (simp add: storeEntityContent_shadowed)
  qed
qed

subsection \<open>The commit\<close>

lemma findEntityFile_Inr:
  "findEntityFile files = Inr entityFile \<longleftrightarrow>
     filter (\<lambda>file. file_name file = ''entity.json'') files = [entityFile]"
proof (cases "filter (\<lambda>file. file_name file = ''entity.json'') files")
  case Nil
  then show ?thesis by (simp add: findEntityFile_def ENTITY_FILE_NAME_def)
next
  case (Cons f fs)
  then show ?thesis by (cases fs) (auto simp: findEntityFile_def ENTITY_FILE_NAME_def)
qed

lemma findEntityFile_member: "findEntityFile files = Inr entityFile \<Longrightarrow> entityFile \<in> set files"
proof -
  assume "findEntityFile files = Inr entityFile"
  then have "entityFile \<in> set (filter (\<lambda>file. file_name file = ''entity.json'') files)"
    by (simp add: findEntityFile_Inr)
  then show ?thesis by simp
qed

lemma commitDeployment_fields:
  fixes env :: "'p Collaborators" and this :: "'p ServiceImpl" and entity :: Entity
    and hashes :: "(FileHash, File) JsMap" and alreadyStoredHashes :: "(FileHash, bool) JsMap"
    and entityId :: EntityId and address :: EthAddress and sig :: Signature
    and serverName :: ServerName and timestampCalculator :: "unit \<Rightarrow> Timestamp"
  assumes d: "distinct (map fst hashes)" and e: "map_of hashes entityId \<noteq> None"
  defines "cr \<equiv> fst (tryToCommitPointers env entity (pointerManager this))"
  defines "toStore \<equiv> contentToStore hashes alreadyStoredHashes entityId (couldCommit cr)"
  defines "out \<equiv> commitDeployment env entity hashes alreadyStoredHashes entityId address sig
                     serverName timestampCalculator this"
  shows "fst out = Inr (timestampCalculator ())"
    and "pointerManager (snd out) = snd (tryToCommitPointers env entity (pointerManager this))"
    and "historyManager (snd out) = historyManager this @
           [\<lparr> event_serverName = serverName, event_entityType = entity_type entity,
              event_entityId = entity_id entity, event_timestamp = timestampCalculator () \<rparr>]"
    and "analytics (snd out) = analytics this @ [(getServerName env, entity, address)]"
    and "ignoreValidationErrors (snd out) = ignoreValidationErrors this"
    and "effects (snd out) = effects this @
           PointersCommit (entity_id entity) (couldCommit cr) #
           map (\<lambda>kv. StorageStore ''contents'' (fst kv)) toStore @
           [StorageStore ''proofs'' (entity_id entity), HistoryAppend (entity_id entity)]"
    and "storage (snd out) (c, k) =
           (if c = ''proofs'' \<and> k = entity_id entity
            then Some (JSON_stringify env \<lparr> audit_deployedTimestamp = timestampCalculator (),
                         audit_ethAddress = address, audit_signature = sig \<rparr>)
            else if c = ''contents'' \<and> k \<in> fst ` set toStore
            then map_option file_content (map_of toStore k)
            else storage this (c, k))"
proof -
  obtain cr' pm' where t: "tryToCommitPointers env entity (pointerManager this) = (cr', pm')"
    by (cases "tryToCommitPointers env entity (pointerManager this)")
  then have cr: "cr = cr'" by (simp add: cr_def)
  define this2 where "this2 = this\<lparr> pointerManager := pm',
       effects := effects this @ [PointersCommit (entity_id entity) (couldCommit cr')],
       entities := foldl (\<lambda>cache deleted. cache(deleted := None)) (entities this) (entitiesDeleted cr') \<rparr>"
  define this3 where "this3 = storeAll this2 toStore"
  have s: "storeEntityContent hashes alreadyStoredHashes entityId (couldCommit cr') this2 = Inr this3"
    unfolding this3_def toStore_def cr by (rule storeEntityContent_defined[OF d e])
  have dt: "distinct (map fst toStore)"
    using d by (simp add: toStore_def contentToStore_def distinct_map_filter)
  have out: "out = (Inr (timestampCalculator ()),
      analytics_recordDeployment (getServerName env) entity address
        (historyManager_newEntityDeployment serverName entity (timestampCalculator ())
          (storage_store ''proofs'' (entity_id entity)
             (JSON_stringify env \<lparr> audit_deployedTimestamp = timestampCalculator (),
                         audit_ethAddress = address, audit_signature = sig \<rparr>) this3)))"
    using s by (simp add: out_def commitDeployment_def pointerManager_tryToCommitPointers_def t
        this2_def Let_def)
  show "fst out = Inr (timestampCalculator ())" by (simp add: out)
  show "pointerManager (snd out) = snd (tryToCommitPointers env entity (pointerManager this))"
    by (simp add: out t analytics_recordDeployment_def historyManager_newEntityDeployment_def
        storage_store_def this3_def storeAll_others this2_def)
  show "historyManager (snd out) = historyManager this @
           [\<lparr> event_serverName = serverName, event_entityType = entity_type entity,
              event_entityId = entity_id entity, event_timestamp = timestampCalculator () \<rparr>]"
    by (simp add: out analytics_recordDeployment_def historyManager_newEntityDeployment_def
        storage_store_def this3_def storeAll_others this2_def)
  show "analytics (snd out) = analytics this @ [(getServerName env, entity, address)]"
    by (simp add: out analytics_recordDeployment_def historyManager_newEntityDeployment_def
        storage_store_def this3_def storeAll_others this2_def)
  show "ignoreValidationErrors (snd out) = ignoreValidationErrors this"
    by (simp add: out analytics_recordDeployment_def historyManager_newEntityDeployment_def
        storage_store_def this3_def storeAll_others this2_def)
  show "effects (snd out) = effects this @
           PointersCommit (entity_id entity) (couldCommit cr) #
           map (\<lambda>kv. StorageStore ''contents'' (fst kv)) toStore @
           [StorageStore ''proofs'' (entity_id entity), HistoryAppend (entity_id entity)]"
    by (simp add: out analytics_recordDeployment_def historyManager_newEntityDeployment_def
        storage_store_def this3_def storeAll_effects this2_def cr)
  have st3: "storage this3 (c, k) =
      (if c = ''contents'' \<and> k \<in> fst ` set toStore then map_option file_content (map_of toStore k)
       else storage this (c, k))"
    unfolding this3_def storeAll_storage[OF dt] by (simp add: this2_def)
  have st: "storage (snd out) (c, k) =
           (if c = ''proofs'' \<and> k = entity_id entity
            then Some (JSON_stringify env \<lparr> audit_deployedTimestamp = timestampCalculator (),
                         audit_ethAddress = address, audit_signature = sig \<rparr>)
            else storage this3 (c, k))"
    by (simp add: out analytics_recordDeployment_def historyManager_newEntityDeployment_def
        storage_store_def)
  show "storage (snd out) (c, k) =
           (if c = ''proofs'' \<and> k = entity_id entity
            then Some (JSON_stringify env \<lparr> audit_deployedTimestamp = timestampCalculator (),
                         audit_ethAddress = address, audit_signature = sig \<rparr>)
            else if c = ''contents'' \<and> k \<in> fst ` set toStore
            then map_option file_content (map_of toStore k)
            else storage this (c, k))"
    unfolding st st3 ..
qed

lemma isContentAvailable_cache [simp]:
  "isContentAvailable hs (this\<lparr> entities := cache \<rparr>) = isContentAvailable hs this"
  by (simp add: isContentAvailable_def storage_exists_def)

lemma validateDeployment_outcome:
  fixes env :: "'p Collaborators" and this :: "'p ServiceImpl"
  assumes "validateDeployment env files entityFile entityId address sig serverName
             timestampCalculator checkFreshness this = (result, this')"
  shows "(\<exists>err cache. result = Inl err \<and> this' = this\<lparr> entities := cache \<rparr>) \<or>
         (\<exists>entity cache.
            EntityFactory_fromFile env entityFile entityId = Some entity \<and>
            (result, this') =
               commitDeployment env entity (Hashing_calculateHashes env files)
                 (isContentAvailable (map fst (Hashing_calculateHashes env files)) this)
                 entityId address sig serverName timestampCalculator (this\<lparr> entities := cache \<rparr>))"
proof (cases "EntityFactory_fromFile env entityFile entityId")
  case None
  with assms have "result = Inl EntityParseError" and "this' = this\<lparr> entities := entities this \<rparr>"
    by (simp_all add: validateDeployment_def)
  then show ?thesis by blast
next
  case (Some entity)
  define fresh where "fresh = (if checkFreshness then validateFreshDeployment env entity this else ([], this))"
  obtain cache where this1: "snd fresh = this\<lparr> entities := cache \<rparr>"
  proof (cases checkFreshness)
    case True
    with validateFreshDeployment_cache_only[of env entity this] that show ?thesis
      by (auto simp: fresh_def)
  next
    case False
    then have "snd fresh = this\<lparr> entities := entities this \<rparr>" by (simp add: fresh_def)
    with that show ?thesis by blast
  qed
  define errors where "errors = validateSignature env entityId address sig @
      validateRequestSize env files @ validateEntity env entity @
      validateAccess env (entity_pointers entity) address (entity_type entity) @
      fst fresh @ validateType env entity @
      validateHashes env entity (Hashing_calculateHashes env files)
        (isContentAvailable (map fst (Hashing_calculateHashes env files)) this)"
  have unfolded: "validateDeployment env files entityFile entityId address sig serverName
             timestampCalculator checkFreshness this =
      (if \<not> ignoreValidationErrors this \<and> length errors > 0
       then (Inl (ValidationErrors errors), this\<lparr> entities := cache \<rparr>)
       else commitDeployment env entity (Hashing_calculateHashes env files)
                 (isContentAvailable (map fst (Hashing_calculateHashes env files)) this)
                 entityId address sig serverName timestampCalculator  (this\<lparr> entities := cache \<rparr>))"
    using this1
    by (simp add: validateDeployment_def Some Let_def split_beta fresh_def[symmetric] errors_def)
  show ?thesis
  proof (cases "\<not> ignoreValidationErrors this \<and> length errors > 0")
    case True
    with assms unfolded have "result = Inl (ValidationErrors errors)"
      and "this' = this\<lparr> entities := cache \<rparr>" by simp_all
    then show ?thesis by blast
  next
    case False
    have "validateDeployment env files entityFile entityId address sig serverName
             timestampCalculator checkFreshness this =
        commitDeployment env entity (Hashing_calculateHashes env files)
                 (isContentAvailable (map fst (Hashing_calculateHashes env files)) this)
                 entityId address sig serverName timestampCalculator (this\<lparr> entities := cache \<rparr>)"
      unfolding unfolded by (rule if_not_P[OF False])
    with assms have "(result, this') =
        commitDeployment env entity (Hashing_calculateHashes env files)
                 (isContentAvailable (map fst (Hashing_calculateHashes env files)) this)
                 entityId address sig serverName timestampCalculator (this\<lparr> entities := cache \<rparr>)"
      by simp
    with Some show ?thesis by blast
  qed
qed

lemma deploy_outcome:
  fixes env :: "'p Collaborators" and this :: "'p ServiceImpl"
  assumes "deployEntityWithServerAndTimestamp env files entityId address sig serverName
             timestampCalculator checkFreshness this = (result, this')"
  shows "(\<exists>err cache. result = Inl err \<and> this' = this\<lparr> entities := cache \<rparr>) \<or>
         (\<exists>entityFile entity cache.
            findEntityFile files = Inr entityFile \<and>
            Hashing_calculateHash env entityFile = entityId \<and>
            EntityFactory_fromFile env entityFile entityId = Some entity \<and>
            (result, this') =
               commitDeployment env entity (Hashing_calculateHashes env files)
                 (isContentAvailable (map fst (Hashing_calculateHashes env files)) this)
                 entityId address sig serverName timestampCalculator (this\<lparr> entities := cache \<rparr>))"
proof (cases "findEntityFile files")
  case (Inl err)
  with assms have "result = Inl err" and "this' = this\<lparr> entities := entities this \<rparr>"
    by (simp_all add: deployEntityWithServerAndTimestamp_def)
  then show ?thesis by blast
next
  case (Inr entityFile)
  show ?thesis
  proof (cases "entityId = Hashing_calculateHash env entityFile")
    case False
    with assms Inr have "result = Inl EntityHashMismatch" and "this' = this\<lparr> entities := entities this \<rparr>"
      by (simp_all add: deployEntityWithServerAndTimestamp_def)
    then show ?thesis by blast
  next
    case True
    with assms Inr have "validateDeployment env files entityFile entityId address sig serverName
             timestampCalculator checkFreshness this = (result, this')"
      by (simp add: deployEntityWithServerAndTimestamp_def)
    from validateDeployment_outcome[OF this] Inr True show ?thesis by blast
  qed
qed

lemma deploy_hashes_wellformed:
  assumes "findEntityFile files = Inr entityFile"
    and "Hashing_calculateHash env entityFile = entityId"
  shows "distinct (map fst (Hashing_calculateHashes env files))"
    and "map_of (Hashing_calculateHashes env files) entityId \<noteq> None"
  using assms calculateHashes_defined[OF findEntityFile_member[OF assms(1)], of env]
  by (simp_all add: calculateHashes_distinct)

lemma deploy_failure_kinds:
  fixes env :: "'p Collaborators" and this :: "'p ServiceImpl"
  assumes "deployEntityWithServerAndTimestamp env files entityId address sig serverName
             timestampCalculator checkFreshness this = (Inl err, this')"
  shows "err = FailedToFindEntityFile \<or> err = MoreThanOneEntityFile \<or> err = EntityHashMismatch \<or>
         err = EntityParseError \<or> (\<exists>errors. errors \<noteq> [] \<and> err = ValidationErrors errors)"
proof (cases "findEntityFile files")
  case (Inl e)
  then have "e = FailedToFindEntityFile \<or> e = MoreThanOneEntityFile"
    by (auto simp: findEntityFile_def Let_def split: if_splits)
  moreover from assms Inl have "err = e"
    by (simp add: deployEntityWithServerAndTimestamp_def)
  ultimately show ?thesis by blast
next
  case (Inr entityFile)
  show ?thesis
  proof (cases "entityId = Hashing_calculateHash env entityFile")
    case False
    with assms Inr show ?thesis by (simp add: deployEntityWithServerAndTimestamp_def)
  next
    case True
    with assms Inr have v: "validateDeployment env files entityFile entityId address sig serverName
             timestampCalculator checkFreshness this = (Inl err, this')"
      by (simp add: deployEntityWithServerAndTimestamp_def)
    show ?thesis
    proof (cases "EntityFactory_fromFile env entityFile entityId")
      case None
      with v show ?thesis by (simp add: validateDeployment_def)
    next
      case (Some entity)
      have wf: "distinct (map fst (Hashing_calculateHashes env files))"
        "map_of (Hashing_calculateHashes env files) entityId \<noteq> None"
        using deploy_hashes_wellformed[OF Inr True[symmetric]] by simp_all
      have committed: "commitDeployment env entity (Hashing_calculateHashes env files) stored
          entityId address sig serverName timestampCalculator that \<noteq> (Inl err, this')" for stored that
        using commitDeployment_fields(1)[OF wf, where env = env and entity = entity and this = that
            and alreadyStoredHashes = stored and address = address and sig = sig
            and serverName = serverName and timestampCalculator = timestampCalculator]
        by auto
      from v Some committed show ?thesis
        by (auto simp: validateDeployment_def Let_def split_beta split: if_splits)
    qed
  qed
qed

lemma deploy_success_fields:
  fixes env :: "'p Collaborators" and this :: "'p ServiceImpl"
  assumes "deployEntityWithServerAndTimestamp env files entityId address sig serverName
             timestampCalculator checkFreshness this = (Inr timestamp, this')"
  obtains entityFile entity toStore where
    "findEntityFile files = Inr entityFile"
    "Hashing_calculateHash env entityFile = entityId"
    "EntityFactory_fromFile env entityFile entityId = Some entity"
    "toStore = contentToStore (Hashing_calculateHashes env files)
        (isContentAvailable (map fst (Hashing_calculateHashes env files)) this) entityId
        (couldCommit (fst (tryToCommitPointers env entity (pointerManager this))))"
    "timestamp = timestampCalculator ()"
    "pointerManager this' = snd (tryToCommitPointers env entity (pointerManager this))"
    "historyManager this' = historyManager this @
           [\<lparr> event_serverName = serverName, event_entityType = entity_type entity,
              event_entityId = entity_id entity, event_timestamp = timestampCalculator () \<rparr>]"
    "analytics this' = analytics this @ [(getServerName env, entity, address)]"
    "effects this' = effects this @
           PointersCommit (entity_id entity)
             (couldCommit (fst (tryToCommitPointers env entity (pointerManager this)))) #
           map (\<lambda>kv. StorageStore ''contents'' (fst kv)) toStore @
           [StorageStore ''proofs'' (entity_id entity), HistoryAppend (entity_id entity)]"
    "\<And>c k. storage this' (c, k) =
           (if c = ''proofs'' \<and> k = entity_id entity
            then Some (JSON_stringify env \<lparr> audit_deployedTimestamp = timestampCalculator (),
                         audit_ethAddress = address, audit_signature = sig \<rparr>)
            else if c = ''contents'' \<and> k \<in> fst ` set toStore
            then map_option file_content (map_of toStore k)
            else storage this (c, k))"
proof -
  from deploy_outcome[OF assms]
  obtain entityFile entity cache where
    f: "findEntityFile files = Inr entityFile" and
    h: "Hashing_calculateHash env entityFile = entityId" and
    p: "EntityFactory_fromFile env entityFile entityId = Some entity" and
    c: "(Inr timestamp, this') =
               commitDeployment env entity (Hashing_calculateHashes env files)
                 (isContentAvailable (map fst (Hashing_calculateHashes env files)) this)
                 entityId address sig serverName timestampCalculator (this\<lparr> entities := cache \<rparr>)"
    by auto
  note wf = deploy_hashes_wellformed[OF f h]
  note fields = commitDeployment_fields[OF wf, where env = env and entity = entity
      and this = "this\<lparr> entities := cache \<rparr>"
      and alreadyStoredHashes = "isContentAvailable (map fst (Hashing_calculateHashes env files)) this"
      and address = address and sig = sig and serverName = serverName
      and timestampCalculator = timestampCalculator, unfolded c[symmetric] fst_conv snd_conv]
  have t: "timestamp = timestampCalculator ()" using fields(1) by simp
  have st: "storage (this\<lparr> entities := cache \<rparr>) = storage this"
    and pm: "pointerManager (this\<lparr> entities := cache \<rparr>) = pointerManager this"
    and hm: "historyManager (this\<lparr> entities := cache \<rparr>) = historyManager this"
    and an: "analytics (this\<lparr> entities := cache \<rparr>) = analytics this"
    and ef: "effects (this\<lparr> entities := cache \<rparr>) = effects this"
    by simp_all
  show ?thesis
    by (rule that[OF f h p refl t fields(2)[unfolded pm] fields(3)[unfolded hm]
          fields(4)[unfolded an] fields(6)[unfolded ef pm] fields(7)[unfolded st pm]])
qed

lemma map_of_filter_distinct:
  assumes "distinct (map fst xs)" and "k \<in> fst ` set (filter P xs)"
  shows "map_of (filter P xs) k = map_of xs k"
proof -
  from assms(2) obtain v where v: "(k, v) \<in> set (filter P xs)" by auto
  have "distinct (map fst (filter P xs))" using assms(1) by (rule distinct_map_filter)
  from map_of_is_SomeI[OF this v] have "map_of (filter P xs) k = Some v" .
  moreover from v have "(k, v) \<in> set xs" by simp
  from map_of_is_SomeI[OF assms(1) this] have "map_of xs k = Some v" .
  ultimately show ?thesis by simp
qed

lemma contentToStore_lookup:
  assumes "distinct (map fst hashes)"
    and "k \<in> fst ` set (contentToStore hashes stored entityId cc)"
  shows "map_of (contentToStore hashes stored entityId cc) k = map_of hashes k"
  using assms by (auto simp: contentToStore_def intro!: map_of_filter_distinct split: if_splits)

lemma contentToStore_keys:
  assumes d: "distinct (map fst hashes)" and e: "map_of hashes entityId \<noteq> None"
  shows "map fst (contentToStore hashes (isContentAvailable (map fst hashes) this) entityId cc) =
     (if cc then filter (\<lambda>h. storage this (''contents'', h) = None) (map fst hashes)
      else filter (\<lambda>h. storage this (''contents'', h) = None) [entityId])"
proof -
  have key: "(map_of (isContentAvailable (map fst hashes) this) h \<noteq> Some True) =
      (storage this (''contents'', h) = None)" if "h \<in> fst ` set hashes" for h
    using that by (simp add: isContentAvailable_get)
  from e have member: "entityId \<in> fst ` set hashes" by (simp add: map_of_eq_None_iff)
  show ?thesis
  proof (cases cc)
    case True
    have "map fst (filter (\<lambda>kv. map_of (isContentAvailable (map fst hashes) this) (fst kv) \<noteq> Some True) hashes)
        = map fst (filter (\<lambda>kv. storage this (''contents'', fst kv) = None) hashes)"
      by (rule arg_cong[where f = "map fst"], rule filter_cong[OF refl]) (simp add: key)
    also have "\<dots> = filter (\<lambda>h. storage this (''contents'', h) = None) (map fst hashes)"
      by (simp add: filter_map comp_def)
    finally show ?thesis using True by (simp add: contentToStore_def)
  next
    case False
    from e obtain entityFile where f: "map_of hashes entityId = Some entityFile" by auto
    have one: "filter (\<lambda>kv. fst kv = entityId) hashes = [(entityId, entityFile)]"
      by (rule filter_key_distinct[OF d f])
    show ?thesis
    proof (cases "storage this (''contents'', entityId) = None")
      case True
      with key[OF member] have "map_of (isContentAvailable (map fst hashes) this) entityId \<noteq> Some True"
        by simp
      then have "contentToStore hashes (isContentAvailable (map fst hashes) this) entityId False
          = [(entityId, entityFile)]"
        using one by (simp add: contentToStore_def)
      with False True show ?thesis by simp
    next
      case F2: False
      with key[OF member] have "\<not> map_of (isContentAvailable (map fst hashes) this) entityId \<noteq> Some True"
        by simp
      then have "contentToStore hashes (isContentAvailable (map fst hashes) this) entityId False = []"
        by (simp add: contentToStore_def)
      with False F2 show ?thesis by simp
    qed
  qed
qed

lemma tryToCommit_shadowed:
  "\<not> couldCommit (fst (tryToCommit entity pointers)) \<Longrightarrow>
     snd (tryToCommit entity pointers) = pointers \<and> entitiesDeleted (fst (tryToCommit entity pointers)) = []"
  by (simp add: tryToCommit_def Let_def split: if_splits)

subsection \<open>The example deployments, evaluated\<close>

lemma example_deploy_result:
  "fst (deployEntity example_env example_files ''E1'' ''0xabc'' ''sig'' empty_service) = Inr 2000"
  by code_simp

lemma example_deploy_effects:
  "effects (snd (deployEntity example_env example_files ''E1'' ''0xabc'' ''sig'' empty_service)) =
     [PointersCommit ''E1'' True, StorageStore ''contents'' ''E1'', StorageStore ''contents'' ''h1'',
      StorageStore ''proofs'' ''E1'', HistoryAppend ''E1'']"
  by code_simp

lemma example_missing_file_result:
  "fst (deployEntityWithServerAndTimestamp example_env [] ''E1'' ''0xabc'' ''sig'' ''server-1''
      (\<lambda>_. 2000) True empty_service) = Inl FailedToFindEntityFile"
  by code_simp

lemma example_result:
  "fst (deployEntityWithServerAndTimestamp example_env example_files ''E1'' ''0xabc'' ''sig'' ''server-1''
      (\<lambda>_. 2000) True empty_service) = Inr 2000"
  by code_simp

lemma shadowed_result:
  "fst (deployEntityWithServerAndTimestamp example_env older_files ''E0'' ''0xabc'' ''sig''
      ''server-2'' (\<lambda>_. 1500) False deployed_service) = Inr 1500"
  by code_simp

lemma shadowed_commit:
  "couldCommit (fst (tryToCommitPointers example_env older_entity (pointerManager deployed_service))) = False"
  by code_simp

lemma example_commit:
  "couldCommit (fst (tryToCommitPointers example_env example_entity (pointerManager empty_service))) = True"
  by code_simp

lemma example_entity_file:
  "findEntityFile example_files = Inr \<lparr> file_name = ''entity.json'', file_content = [1, 2, 3] \<rparr>"
  by code_simp

lemma older_entity_file:
  "findEntityFile older_files = Inr \<lparr> file_name = ''entity.json'', file_content = [4, 5, 6] \<rparr>"
  by code_simp

lemma example_parse:
  "EntityFactory_fromFile example_env \<lparr> file_name = ''entity.json'', file_content = [1, 2, 3] \<rparr> ''E1''
     = Some example_entity"
  by (simp add: example_env_def example_fromFile_def)

lemma older_parse:
  "EntityFactory_fromFile example_env \<lparr> file_name = ''entity.json'', file_content = [4, 5, 6] \<rparr> ''E0''
     = Some older_entity"
  by (simp add: example_env_def example_fromFile_def)

lemma synced_result:
  "fst (deployEntityFromAnotherContentServer example_env older_files ''E0'' ''0xabc'' ''sig''
      ''server-2'' 1500 deployed_service) = Inr ()"
  by code_simp

subsection \<open>The order of a deployment\<close>

text \<open>
  Claim C1, as amended. Whatever a deployment returns, with whatever collaborators:
  when it fails, the error is one of the entity-file location, the hash check, the
  parse and the validations (freshness among them), and the storage, the pointers, the
  history, the analytics and the record of effects are as they were before; when it
  succeeds, its mutations are, in this order, the commit of the pointers, then the
  stores of content blobs, then the store of the audit record, then the report to the
  history.
\<close>

theorem deploy_aborts_or_commits_in_order:
  fixes env :: "'p Collaborators" and this :: "'p ServiceImpl"
  assumes "deployEntityWithServerAndTimestamp env files entityId address sig serverName
             timestampCalculator checkFreshness this = (result, this')"
  shows
   "(\<forall>err. result = Inl err \<longrightarrow>
       (err = FailedToFindEntityFile \<or> err = MoreThanOneEntityFile \<or> err = EntityHashMismatch \<or>
        err = EntityParseError \<or> (\<exists>errors. errors \<noteq> [] \<and> err = ValidationErrors errors)) \<and>
       storage this' = storage this \<and> pointerManager this' = pointerManager this \<and>
       historyManager this' = historyManager this \<and> analytics this' = analytics this \<and>
       effects this' = effects this) \<and>
    (\<forall>timestamp. result = Inr timestamp \<longrightarrow>
       (\<exists>entityFile entity stored.
          findEntityFile files = Inr entityFile \<and>
          EntityFactory_fromFile env entityFile entityId = Some entity \<and>
          pointerManager this' = snd (tryToCommitPointers env entity (pointerManager this)) \<and>
          effects this' = effects this @
            [PointersCommit (entity_id entity)
               (couldCommit (fst (tryToCommitPointers env entity (pointerManager this))))] @
            map (StorageStore ''contents'') stored @
            [StorageStore ''proofs'' (entity_id entity), HistoryAppend (entity_id entity)]))"
proof (intro conjI allI impI)
  fix err assume r: "result = Inl err"
  from deploy_failure_kinds[OF assms[unfolded r]]
  show "err = FailedToFindEntityFile \<or> err = MoreThanOneEntityFile \<or> err = EntityHashMismatch \<or>
        err = EntityParseError \<or> (\<exists>errors. errors \<noteq> [] \<and> err = ValidationErrors errors)" .
  have "\<exists>cache. this' = this\<lparr> entities := cache \<rparr>"
  proof (rule disjE[OF deploy_outcome[OF assms]])
    assume "\<exists>err cache. result = Inl err \<and> this' = this\<lparr> entities := cache \<rparr>"
    then show ?thesis by blast
  next
    assume "\<exists>entityFile entity cache.
            findEntityFile files = Inr entityFile \<and>
            Hashing_calculateHash env entityFile = entityId \<and>
            EntityFactory_fromFile env entityFile entityId = Some entity \<and>
            (result, this') =
               commitDeployment env entity (Hashing_calculateHashes env files)
                 (isContentAvailable (map fst (Hashing_calculateHashes env files)) this)
                 entityId address sig serverName timestampCalculator (this\<lparr> entities := cache \<rparr>)"
    then obtain entityFile entity cache where
      f: "findEntityFile files = Inr entityFile"
      and h: "Hashing_calculateHash env entityFile = entityId"
      and c: "(result, this') = commitDeployment env entity (Hashing_calculateHashes env files)
                 (isContentAvailable (map fst (Hashing_calculateHashes env files)) this)
                 entityId address sig serverName timestampCalculator (this\<lparr> entities := cache \<rparr>)"
      by blast
    have "fst (result, this') = Inr (timestampCalculator ())"
      unfolding c
      by (rule commitDeployment_fields(1)[OF deploy_hashes_wellformed[OF f h]])
    with r show ?thesis by simp
  qed
  then obtain cache where t: "this' = this\<lparr> entities := cache \<rparr>" ..
  show "storage this' = storage this" "pointerManager this' = pointerManager this"
    "historyManager this' = historyManager this" "analytics this' = analytics this"
    "effects this' = effects this"
    by (simp_all add: t)
next
  fix timestamp assume r: "result = Inr timestamp"
  show "\<exists>entityFile entity stored.
          findEntityFile files = Inr entityFile \<and>
          EntityFactory_fromFile env entityFile entityId = Some entity \<and>
          pointerManager this' = snd (tryToCommitPointers env entity (pointerManager this)) \<and>
          effects this' = effects this @
            [PointersCommit (entity_id entity)
               (couldCommit (fst (tryToCommitPointers env entity (pointerManager this))))] @
            map (StorageStore ''contents'') stored @
            [StorageStore ''proofs'' (entity_id entity), HistoryAppend (entity_id entity)]"
  proof (rule deploy_success_fields[OF assms[unfolded r]], goal_cases)
    case (1 entityFile entity toStore)
    have "map (\<lambda>kv. StorageStore ''contents'' (fst kv)) toStore =
        map (StorageStore ''contents'') (map fst toStore)" by simp
    with 1(9) have "effects this' = effects this @
            [PointersCommit (entity_id entity)
               (couldCommit (fst (tryToCommitPointers env entity (pointerManager this))))] @
            map (StorageStore ''contents'') (map fst toStore) @
            [StorageStore ''proofs'' (entity_id entity), HistoryAppend (entity_id entity)]"
      by simp
    with 1(1) 1(3) 1(6) show ?case
      by (intro exI[of _ entityFile] exI[of _ entity] exI[of _ "map fst toStore"] conjI)
  qed
qed

theorem deploy_aborts_or_commits_in_order_witness:
  "(storage (snd (deployEntityWithServerAndTimestamp example_env [] ''E1'' ''0xabc'' ''sig''
        ''server-1'' (\<lambda>_. 2000) True empty_service)) = storage empty_service \<and>
    pointerManager (snd (deployEntityWithServerAndTimestamp example_env [] ''E1'' ''0xabc'' ''sig''
        ''server-1'' (\<lambda>_. 2000) True empty_service)) = pointerManager empty_service \<and>
    historyManager (snd (deployEntityWithServerAndTimestamp example_env [] ''E1'' ''0xabc'' ''sig''
        ''server-1'' (\<lambda>_. 2000) True empty_service)) = historyManager empty_service \<and>
    effects (snd (deployEntityWithServerAndTimestamp example_env [] ''E1'' ''0xabc'' ''sig''
        ''server-1'' (\<lambda>_. 2000) True empty_service)) = effects empty_service) \<and>
   (\<exists>entityFile entity stored.
      findEntityFile example_files = Inr entityFile \<and>
      EntityFactory_fromFile example_env entityFile ''E1'' = Some entity \<and>
      effects (snd (deployEntityWithServerAndTimestamp example_env example_files ''E1'' ''0xabc''
          ''sig'' ''server-1'' (\<lambda>_. 2000) True empty_service)) =
        effects empty_service @
        [PointersCommit (entity_id entity)
           (couldCommit (fst (tryToCommitPointers example_env entity (pointerManager empty_service))))] @
        map (StorageStore ''contents'') stored @
        [StorageStore ''proofs'' (entity_id entity), HistoryAppend (entity_id entity)])"
proof -
  note failed = deploy_aborts_or_commits_in_order[OF surjective_pairing,
      of example_env "[]" "''E1''" "''0xabc''" "''sig''" "''server-1''" "\<lambda>_. 2000" True empty_service,
      unfolded example_missing_file_result]
  note deployed = deploy_aborts_or_commits_in_order[OF surjective_pairing,
      of example_env example_files "''E1''" "''0xabc''" "''sig''" "''server-1''" "\<lambda>_. 2000" True
        empty_service,
      unfolded example_result]
  from failed have a: "storage (snd (deployEntityWithServerAndTimestamp example_env [] ''E1'' ''0xabc'' ''sig''
        ''server-1'' (\<lambda>_. 2000) True empty_service)) = storage empty_service \<and>
    pointerManager (snd (deployEntityWithServerAndTimestamp example_env [] ''E1'' ''0xabc'' ''sig''
        ''server-1'' (\<lambda>_. 2000) True empty_service)) = pointerManager empty_service \<and>
    historyManager (snd (deployEntityWithServerAndTimestamp example_env [] ''E1'' ''0xabc'' ''sig''
        ''server-1'' (\<lambda>_. 2000) True empty_service)) = historyManager empty_service \<and>
    effects (snd (deployEntityWithServerAndTimestamp example_env [] ''E1'' ''0xabc'' ''sig''
        ''server-1'' (\<lambda>_. 2000) True empty_service)) = effects empty_service"
    by simp
  from deployed have b: "\<exists>entityFile entity stored.
      findEntityFile example_files = Inr entityFile \<and>
      EntityFactory_fromFile example_env entityFile ''E1'' = Some entity \<and>
      effects (snd (deployEntityWithServerAndTimestamp example_env example_files ''E1'' ''0xabc''
          ''sig'' ''server-1'' (\<lambda>_. 2000) True empty_service)) =
        effects empty_service @
        [PointersCommit (entity_id entity)
           (couldCommit (fst (tryToCommitPointers example_env entity (pointerManager empty_service))))] @
        map (StorageStore ''contents'') stored @
        [StorageStore ''proofs'' (entity_id entity), HistoryAppend (entity_id entity)]"
    by simp blast
  from a b show ?thesis by (rule conjI)
qed

text \<open>
  Claim C1 as the specification states it fails. The deployment of E1 on the empty
  server succeeds, and it commits the pointers before it stores the two content blobs.
  And the deployment of the older E0 on the server that holds E1 fails its freshness
  validation, after the fetch of the active entity of the pointer has put E1 in the
  cache of entities, which did not hold it.
\<close>

theorem deploy_storage_first_counterexample:
  "fst (deployEntity example_env example_files ''E1'' ''0xabc'' ''sig'' empty_service) = Inr 2000 \<and>
   effects (snd (deployEntity example_env example_files ''E1'' ''0xabc'' ''sig'' empty_service)) =
     [PointersCommit ''E1'' True, StorageStore ''contents'' ''E1'', StorageStore ''contents'' ''h1'',
      StorageStore ''proofs'' ''E1'', HistoryAppend ''E1''] \<and>
   \<not> storageBeforePointers
       (effects (snd (deployEntity example_env example_files ''E1'' ''0xabc'' ''sig'' empty_service))) \<and>
   fst (deployEntity example_env older_files ''E0'' ''0xabc'' ''sig'' deployed_service) =
     Inl (ValidationErrors
       [''There is a newer entity pointed by one or more of the pointers you provided.'']) \<and>
   entities deployed_service ''E1'' = None \<and>
   entities (snd (deployEntity example_env older_files ''E0'' ''0xabc'' ''sig'' deployed_service)) ''E1'' =
     Some example_entity"
  by code_simp

subsection \<open>The content a deployment stores\<close>

text \<open>
  Claim C2. For a deployment that succeeds, let committed be the couldCommit that the
  pointer commit reports. The content blobs stored are, each once: when committed, the
  hashes of the uploaded files that the storage does not hold; when not committed, the
  entity id alone, and only if the storage does not hold it. After the deployment the
  contents category holds, under each of these hashes, the bytes of an uploaded file
  with that hash, and is unchanged elsewhere. The pointer state moves by the one call
  of the pointer commit; and a pointer commit that reports couldCommit = false leaves
  the pointer state as it was and deletes nothing.
\<close>

theorem deploy_stores_missing_content:
  fixes env :: "'p Collaborators" and this :: "'p ServiceImpl"
  assumes "deployEntityWithServerAndTimestamp env files entityId address sig serverName
             timestampCalculator checkFreshness this = (Inr timestamp, this')"
    and "findEntityFile files = Inr entityFile"
    and "EntityFactory_fromFile env entityFile entityId = Some entity"
    and "committed = couldCommit (fst (tryToCommitPointers env entity (pointerManager this)))"
  shows
   "effects this' = effects this @
       PointersCommit (entity_id entity) committed #
       map (StorageStore ''contents'')
         (if committed
          then filter (\<lambda>h. storage this (''contents'', h) = None)
                 (map fst (Hashing_calculateHashes env files))
          else filter (\<lambda>h. storage this (''contents'', h) = None) [entityId]) @
       [StorageStore ''proofs'' (entity_id entity), HistoryAppend (entity_id entity)] \<and>
    distinct (map fst (Hashing_calculateHashes env files)) \<and>
    set (map fst (Hashing_calculateHashes env files)) = Hashing_calculateHash env ` set files \<and>
    (\<forall>h. storage this' (''contents'', h) =
       (if storage this (''contents'', h) = None \<and>
           (if committed then h \<in> Hashing_calculateHash env ` set files else h = entityId)
        then map_option file_content (map_of (Hashing_calculateHashes env files) h)
        else storage this (''contents'', h))) \<and>
    (\<forall>h \<in> Hashing_calculateHash env ` set files.
       \<exists>file \<in> set files. Hashing_calculateHash env file = h \<and>
          map_of (Hashing_calculateHashes env files) h = Some file) \<and>
    entityId \<in> Hashing_calculateHash env ` set files \<and>
    pointerManager this' = snd (tryToCommitPointers env entity (pointerManager this)) \<and>
    (\<forall>e pointers. \<not> couldCommit (fst (tryToCommit e pointers)) \<longrightarrow>
        snd (tryToCommit e pointers) = pointers \<and> entitiesDeleted (fst (tryToCommit e pointers)) = [])"
proof (rule deploy_success_fields[OF assms(1)], goal_cases)
  case (1 entityFile' entity' toStore)
  from 1(1) assms(2) have ef: "entityFile' = entityFile" by simp
  from 1(3) assms(3) ef have en: "entity' = entity" by simp
  let ?H = "Hashing_calculateHashes env files"
  have d: "distinct (map fst ?H)" by (rule calculateHashes_distinct)
  have he: "Hashing_calculateHash env entityFile = entityId" using 1(2) ef by simp
  have wf: "map_of ?H entityId \<noteq> None"
    by (rule deploy_hashes_wellformed(2)[OF assms(2) he])
  have keys: "set (map fst ?H) = Hashing_calculateHash env ` set files"
    using calculateHashes_keys[of env files] by simp
  have member: "entityId \<in> Hashing_calculateHash env ` set files"
    using wf keys by (simp add: map_of_eq_None_iff)
  have stored: "map fst toStore =
     (if committed then filter (\<lambda>h. storage this (''contents'', h) = None) (map fst ?H)
      else filter (\<lambda>h. storage this (''contents'', h) = None) [entityId])"
    unfolding 1(4) en assms(4)[symmetric] by (rule contentToStore_keys[OF d wf])
  have stored_set: "k \<in> fst ` set toStore \<longleftrightarrow>
      storage this (''contents'', k) = None \<and>
      (if committed then k \<in> Hashing_calculateHash env ` set files else k = entityId)" for k
  proof -
    have "k \<in> fst ` set toStore \<longleftrightarrow> k \<in> set (map fst toStore)" by simp
    also have "\<dots> \<longleftrightarrow> storage this (''contents'', k) = None \<and>
      (if committed then k \<in> Hashing_calculateHash env ` set files else k = entityId)"
      unfolding stored using keys by auto
    finally show ?thesis .
  qed
  have lookup: "map_of toStore k = map_of ?H k" if "k \<in> fst ` set toStore" for k
    using that unfolding 1(4) by (rule contentToStore_lookup[OF d])
  have effects: "effects this' = effects this @
       PointersCommit (entity_id entity) committed #
       map (StorageStore ''contents'')
         (if committed
          then filter (\<lambda>h. storage this (''contents'', h) = None) (map fst ?H)
          else filter (\<lambda>h. storage this (''contents'', h) = None) [entityId]) @
       [StorageStore ''proofs'' (entity_id entity), HistoryAppend (entity_id entity)]"
  proof -
    have "map (\<lambda>kv. StorageStore ''contents'' (fst kv)) toStore =
        map (StorageStore ''contents'') (map fst toStore)" by simp
    then show ?thesis
      using 1(9) unfolding en assms(4)[symmetric] stored by simp
  qed
  have contents: "storage this' (''contents'', h) =
       (if storage this (''contents'', h) = None \<and>
           (if committed then h \<in> Hashing_calculateHash env ` set files else h = entityId)
        then map_option file_content (map_of ?H h)
        else storage this (''contents'', h))" for h
  proof (cases "h \<in> fst ` set toStore")
    case True
    have "storage this' (''contents'', h) = map_option file_content (map_of toStore h)"
      using 1(10)[of "''contents''" h] True by simp
    also have "\<dots> = map_option file_content (map_of ?H h)"
      by (simp only: lookup[OF True])
    finally have eq: "storage this' (''contents'', h) = map_option file_content (map_of ?H h)" .
    have cond: "storage this (''contents'', h) = None \<and>
           (if committed then h \<in> Hashing_calculateHash env ` set files else h = entityId)"
      by (rule iffD1[OF stored_set True])
    show ?thesis unfolding if_P[OF cond] by (rule eq)
  next
    case False
    have eq: "storage this' (''contents'', h) = storage this (''contents'', h)"
      using 1(10)[of "''contents''" h] False by simp
    have cond: "\<not> (storage this (''contents'', h) = None \<and>
           (if committed then h \<in> Hashing_calculateHash env ` set files else h = entityId))"
      unfolding stored_set[of h, symmetric] by (rule False)
    show ?thesis unfolding if_not_P[OF cond] by (rule eq)
  qed
  have files: "\<exists>file \<in> set files. Hashing_calculateHash env file = h \<and> map_of ?H h = Some file"
    if "h \<in> Hashing_calculateHash env ` set files" for h
  proof -
    from that keys have "map_of ?H h \<noteq> None" by (simp add: map_of_eq_None_iff)
    then obtain uploaded where f: "map_of ?H h = Some uploaded" by auto
    from calculateHashes_get[OF f] f show ?thesis by blast
  qed
  have pm: "pointerManager this' = snd (tryToCommitPointers env entity (pointerManager this))"
    using 1(6) en by simp
  show ?case
    using effects d keys contents files member pm tryToCommit_shadowed
    by (intro conjI allI ballI impI) blast+
qed

theorem deploy_stores_missing_content_witness:
  "effects (snd (deployEntityWithServerAndTimestamp example_env example_files ''E1'' ''0xabc'' ''sig''
      ''server-1'' (\<lambda>_. 2000) True empty_service)) =
     [PointersCommit ''E1'' True, StorageStore ''contents'' ''E1'', StorageStore ''contents'' ''h1'',
      StorageStore ''proofs'' ''E1'', HistoryAppend ''E1''] \<and>
   effects (snd (deployEntityWithServerAndTimestamp example_env older_files ''E0'' ''0xabc'' ''sig''
      ''server-2'' (\<lambda>_. 1500) False deployed_service)) =
     effects deployed_service @
     [PointersCommit ''E0'' False, StorageStore ''contents'' ''E0'',
      StorageStore ''proofs'' ''E0'', HistoryAppend ''E0''] \<and>
   pointerManager (snd (deployEntityWithServerAndTimestamp example_env older_files ''E0'' ''0xabc'' ''sig''
      ''server-2'' (\<lambda>_. 1500) False deployed_service)) = pointerManager deployed_service"
proof -
  have d1: "deployEntityWithServerAndTimestamp example_env example_files ''E1'' ''0xabc'' ''sig''
      ''server-1'' (\<lambda>_. 2000) True empty_service =
    (Inr 2000, snd (deployEntityWithServerAndTimestamp example_env example_files ''E1'' ''0xabc'' ''sig''
      ''server-1'' (\<lambda>_. 2000) True empty_service))"
    using example_result by (simp add: prod_eq_iff)
  have d2: "deployEntityWithServerAndTimestamp example_env older_files ''E0'' ''0xabc'' ''sig''
      ''server-2'' (\<lambda>_. 1500) False deployed_service =
    (Inr 1500, snd (deployEntityWithServerAndTimestamp example_env older_files ''E0'' ''0xabc'' ''sig''
      ''server-2'' (\<lambda>_. 1500) False deployed_service))"
    using shadowed_result by (simp add: prod_eq_iff)
  note t1 = deploy_stores_missing_content[OF d1 example_entity_file example_parse example_commit[symmetric]]
  note t2 = deploy_stores_missing_content[OF d2 older_entity_file older_parse shadowed_commit[symmetric]]
  have s1: "filter (\<lambda>h. storage empty_service (''contents'', h) = None)
      (map fst (Hashing_calculateHashes example_env example_files)) = [''E1'', ''h1'']"
    by code_simp
  have s2: "filter (\<lambda>h. storage deployed_service (''contents'', h) = None) [''E0''] = [''E0'']"
    by code_simp
  have i1: "entity_id example_entity = ''E1''" and i2: "entity_id older_entity = ''E0''"
    and e0: "effects empty_service = []"
    by (simp_all add: example_entity_def older_entity_def empty_service_def)
  have a: "effects (snd (deployEntityWithServerAndTimestamp example_env example_files ''E1'' ''0xabc'' ''sig''
      ''server-1'' (\<lambda>_. 2000) True empty_service)) =
     [PointersCommit ''E1'' True, StorageStore ''contents'' ''E1'', StorageStore ''contents'' ''h1'',
      StorageStore ''proofs'' ''E1'', HistoryAppend ''E1'']"
    using t1 unfolding s1 i1 e0 by simp
  have b: "effects (snd (deployEntityWithServerAndTimestamp example_env older_files ''E0'' ''0xabc'' ''sig''
      ''server-2'' (\<lambda>_. 1500) False deployed_service)) =
     effects deployed_service @
     [PointersCommit ''E0'' False, StorageStore ''contents'' ''E0'',
      StorageStore ''proofs'' ''E0'', HistoryAppend ''E0'']"
    using t2 unfolding s2 i2 by simp
  have p: "tryToCommitPointers example_env = tryToCommit" by (simp add: example_env_def)
  from t2 have "pointerManager (snd (deployEntityWithServerAndTimestamp example_env older_files ''E0''
      ''0xabc'' ''sig'' ''server-2'' (\<lambda>_. 1500) False deployed_service)) =
      snd (tryToCommit older_entity (pointerManager deployed_service))"
    unfolding p by blast
  moreover from t2 shadowed_commit[unfolded p]
  have "snd (tryToCommit older_entity (pointerManager deployed_service)) = pointerManager deployed_service"
    by blast
  ultimately have c: "pointerManager (snd (deployEntityWithServerAndTimestamp example_env older_files ''E0''
      ''0xabc'' ''sig'' ''server-2'' (\<lambda>_. 1500) False deployed_service)) = pointerManager deployed_service"
    by simp
  from a b c show ?thesis by blast
qed

subsection \<open>The timestamp of a deployment\<close>

text \<open>
  Claim C3. A deployEntity that succeeds returns what Date.now() answered, and a
  deployEntityFromAnotherContentServer that succeeds is a deployment that computed the
  timestamp its caller gave (the method itself returns nothing); in both, the audit
  record stored under the id of the entity holds that timestamp as deployedTimestamp,
  and the event reported to the history holds it too.
\<close>

theorem deployment_timestamp_recorded:
  fixes env :: "'p Collaborators" and this :: "'p ServiceImpl"
  shows
  "(deployEntity env files entityId address sig this = (Inr timestamp, this') \<longrightarrow>
      timestamp = Date_now env \<and>
      (\<exists>entityFile entity.
          findEntityFile files = Inr entityFile \<and>
          EntityFactory_fromFile env entityFile entityId = Some entity \<and>
          storage this' (''proofs'', entity_id entity) =
            Some (JSON_stringify env \<lparr> audit_deployedTimestamp = Date_now env,
                     audit_ethAddress = address, audit_signature = sig \<rparr>) \<and>
          historyManager this' = historyManager this @
            [\<lparr> event_serverName = getServerName env, event_entityType = entity_type entity,
               event_entityId = entity_id entity, event_timestamp = Date_now env \<rparr>])) \<and>
   (deployEntityFromAnotherContentServer env files entityId address sig serverName
        deploymentTimestamp this = (Inr (), this2) \<longrightarrow>
      deployEntityWithServerAndTimestamp env files entityId address sig serverName
        (\<lambda>_. deploymentTimestamp) False this = (Inr deploymentTimestamp, this2) \<and>
      (\<exists>entityFile entity.
          findEntityFile files = Inr entityFile \<and>
          EntityFactory_fromFile env entityFile entityId = Some entity \<and>
          storage this2 (''proofs'', entity_id entity) =
            Some (JSON_stringify env \<lparr> audit_deployedTimestamp = deploymentTimestamp,
                     audit_ethAddress = address, audit_signature = sig \<rparr>) \<and>
          historyManager this2 = historyManager this @
            [\<lparr> event_serverName = serverName, event_entityType = entity_type entity,
               event_entityId = entity_id entity, event_timestamp = deploymentTimestamp \<rparr>]))"
proof (intro conjI impI)
  assume "deployEntity env files entityId address sig this = (Inr timestamp, this')"
  then have d: "deployEntityWithServerAndTimestamp env files entityId address sig (getServerName env)
       (\<lambda>_. Date_now env) True this = (Inr timestamp, this')"
    by (simp add: deployEntity_def)
  show "timestamp = Date_now env"
    by (rule deploy_success_fields[OF d])
  show "\<exists>entityFile entity.
          findEntityFile files = Inr entityFile \<and>
          EntityFactory_fromFile env entityFile entityId = Some entity \<and>
          storage this' (''proofs'', entity_id entity) =
            Some (JSON_stringify env \<lparr> audit_deployedTimestamp = Date_now env,
                     audit_ethAddress = address, audit_signature = sig \<rparr>) \<and>
          historyManager this' = historyManager this @
            [\<lparr> event_serverName = getServerName env, event_entityType = entity_type entity,
               event_entityId = entity_id entity, event_timestamp = Date_now env \<rparr>]"
  proof (rule deploy_success_fields[OF d], goal_cases)
    case (1 entityFile entity toStore)
    from 1(10)[of "''proofs''" "entity_id entity"]
    have "storage this' (''proofs'', entity_id entity) =
            Some (JSON_stringify env \<lparr> audit_deployedTimestamp = Date_now env,
                     audit_ethAddress = address, audit_signature = sig \<rparr>)"
      by simp
    with 1(1) 1(3) 1(7) show ?case
      by (intro exI[of _ entityFile] exI[of _ entity] conjI)
  qed
next
  assume a: "deployEntityFromAnotherContentServer env files entityId address sig serverName
        deploymentTimestamp this = (Inr (), this2)"
  obtain result that where r: "deployEntityWithServerAndTimestamp env files entityId address sig
        serverName (\<lambda>_. deploymentTimestamp) False this = (result, that)"
    by (cases "deployEntityWithServerAndTimestamp env files entityId address sig
        serverName (\<lambda>_. deploymentTimestamp) False this")
  from a r obtain timestamp where "result = Inr timestamp" and t2: "that = this2"
    by (cases result) (simp_all add: deployEntityFromAnotherContentServer_def)
  with r have d: "deployEntityWithServerAndTimestamp env files entityId address sig
        serverName (\<lambda>_. deploymentTimestamp) False this = (Inr timestamp, this2)"
    by simp
  have ts: "timestamp = deploymentTimestamp"
    by (rule deploy_success_fields[OF d])
  from d ts show "deployEntityWithServerAndTimestamp env files entityId address sig serverName
        (\<lambda>_. deploymentTimestamp) False this = (Inr deploymentTimestamp, this2)"
    by simp
  show "\<exists>entityFile entity.
          findEntityFile files = Inr entityFile \<and>
          EntityFactory_fromFile env entityFile entityId = Some entity \<and>
          storage this2 (''proofs'', entity_id entity) =
            Some (JSON_stringify env \<lparr> audit_deployedTimestamp = deploymentTimestamp,
                     audit_ethAddress = address, audit_signature = sig \<rparr>) \<and>
          historyManager this2 = historyManager this @
            [\<lparr> event_serverName = serverName, event_entityType = entity_type entity,
               event_entityId = entity_id entity, event_timestamp = deploymentTimestamp \<rparr>]"
  proof (rule deploy_success_fields[OF d], goal_cases)
    case (1 entityFile entity toStore)
    from 1(10)[of "''proofs''" "entity_id entity"]
    have "storage this2 (''proofs'', entity_id entity) =
            Some (JSON_stringify env \<lparr> audit_deployedTimestamp = deploymentTimestamp,
                     audit_ethAddress = address, audit_signature = sig \<rparr>)"
      by simp
    with 1(1) 1(3) 1(7) show ?case
      by (intro exI[of _ entityFile] exI[of _ entity] conjI)
  qed
qed

theorem deployment_timestamp_recorded_witness:
  "(fst (deployEntity example_env example_files ''E1'' ''0xabc'' ''sig'' empty_service)
      = Inr (Date_now example_env) \<and>
    (\<exists>entityFile entity.
       findEntityFile example_files = Inr entityFile \<and>
       EntityFactory_fromFile example_env entityFile ''E1'' = Some entity \<and>
       storage (snd (deployEntity example_env example_files ''E1'' ''0xabc'' ''sig'' empty_service))
           (''proofs'', entity_id entity) =
         Some (JSON_stringify example_env \<lparr> audit_deployedTimestamp = Date_now example_env,
                  audit_ethAddress = ''0xabc'', audit_signature = ''sig'' \<rparr>) \<and>
       historyManager (snd (deployEntity example_env example_files ''E1'' ''0xabc'' ''sig'' empty_service)) =
         historyManager empty_service @
         [\<lparr> event_serverName = getServerName example_env, event_entityType = entity_type entity,
            event_entityId = entity_id entity, event_timestamp = Date_now example_env \<rparr>])) \<and>
   (deployEntityWithServerAndTimestamp example_env older_files ''E0'' ''0xabc'' ''sig'' ''server-2''
        (\<lambda>_. 1500) False deployed_service =
      (Inr 1500, snd (deployEntityFromAnotherContentServer example_env older_files ''E0'' ''0xabc''
          ''sig'' ''server-2'' 1500 deployed_service)) \<and>
    (\<exists>entityFile entity.
       findEntityFile older_files = Inr entityFile \<and>
       EntityFactory_fromFile example_env entityFile ''E0'' = Some entity \<and>
       storage (snd (deployEntityFromAnotherContentServer example_env older_files ''E0'' ''0xabc''
            ''sig'' ''server-2'' 1500 deployed_service)) (''proofs'', entity_id entity) =
         Some (JSON_stringify example_env \<lparr> audit_deployedTimestamp = 1500,
                  audit_ethAddress = ''0xabc'', audit_signature = ''sig'' \<rparr>) \<and>
       historyManager (snd (deployEntityFromAnotherContentServer example_env older_files ''E0'' ''0xabc''
            ''sig'' ''server-2'' 1500 deployed_service)) =
         historyManager deployed_service @
         [\<lparr> event_serverName = ''server-2'', event_entityType = entity_type entity,
            event_entityId = entity_id entity, event_timestamp = 1500 \<rparr>]))"
proof -
  have d1: "deployEntity example_env example_files ''E1'' ''0xabc'' ''sig'' empty_service =
      (Inr 2000, snd (deployEntity example_env example_files ''E1'' ''0xabc'' ''sig'' empty_service))"
    using example_deploy_result by (simp add: prod_eq_iff)
  have d2: "deployEntityFromAnotherContentServer example_env older_files ''E0'' ''0xabc'' ''sig''
      ''server-2'' 1500 deployed_service =
      (Inr (), snd (deployEntityFromAnotherContentServer example_env older_files ''E0'' ''0xabc'' ''sig''
      ''server-2'' 1500 deployed_service))"
    using synced_result by (simp add: prod_eq_iff)
  note t = deployment_timestamp_recorded[where env = example_env and this = empty_service
      and files = example_files and entityId = "''E1''" and address = "''0xabc''" and sig = "''sig''"
      and timestamp = 2000
      and this' = "snd (deployEntity example_env example_files ''E1'' ''0xabc'' ''sig'' empty_service)"]
  note u = deployment_timestamp_recorded[where env = example_env and this = deployed_service
      and files = older_files and entityId = "''E0''" and address = "''0xabc''" and sig = "''sig''"
      and serverName = "''server-2''" and deploymentTimestamp = 1500
      and ?this2.0 = "snd (deployEntityFromAnotherContentServer example_env older_files ''E0'' ''0xabc''
          ''sig'' ''server-2'' 1500 deployed_service)"]
  from t d1 have local: "2000 = Date_now example_env \<and>
    (\<exists>entityFile entity.
       findEntityFile example_files = Inr entityFile \<and>
       EntityFactory_fromFile example_env entityFile ''E1'' = Some entity \<and>
       storage (snd (deployEntity example_env example_files ''E1'' ''0xabc'' ''sig'' empty_service))
           (''proofs'', entity_id entity) =
         Some (JSON_stringify example_env \<lparr> audit_deployedTimestamp = Date_now example_env,
                  audit_ethAddress = ''0xabc'', audit_signature = ''sig'' \<rparr>) \<and>
       historyManager (snd (deployEntity example_env example_files ''E1'' ''0xabc'' ''sig'' empty_service)) =
         historyManager empty_service @
         [\<lparr> event_serverName = getServerName example_env, event_entityType = entity_type entity,
            event_entityId = entity_id entity, event_timestamp = Date_now example_env \<rparr>])"
    by (rule mp[OF conjunct1])
  from u d2 have synced: "deployEntityWithServerAndTimestamp example_env older_files ''E0'' ''0xabc'' ''sig'' ''server-2''
        (\<lambda>_. 1500) False deployed_service =
      (Inr 1500, snd (deployEntityFromAnotherContentServer example_env older_files ''E0'' ''0xabc''
          ''sig'' ''server-2'' 1500 deployed_service)) \<and>
    (\<exists>entityFile entity.
       findEntityFile older_files = Inr entityFile \<and>
       EntityFactory_fromFile example_env entityFile ''E0'' = Some entity \<and>
       storage (snd (deployEntityFromAnotherContentServer example_env older_files ''E0'' ''0xabc''
            ''sig'' ''server-2'' 1500 deployed_service)) (''proofs'', entity_id entity) =
         Some (JSON_stringify example_env \<lparr> audit_deployedTimestamp = 1500,
                  audit_ethAddress = ''0xabc'', audit_signature = ''sig'' \<rparr>) \<and>
       historyManager (snd (deployEntityFromAnotherContentServer example_env older_files ''E0'' ''0xabc''
            ''sig'' ''server-2'' 1500 deployed_service)) =
         historyManager deployed_service @
         [\<lparr> event_serverName = ''server-2'', event_entityType = entity_type entity,
            event_entityId = entity_id entity, event_timestamp = 1500 \<rparr>])"
    by (rule mp[OF conjunct2])
  from local have "fst (deployEntity example_env example_files ''E1'' ''0xabc'' ''sig'' empty_service)
      = Inr (Date_now example_env)"
    using example_deploy_result by simp
  with local synced show ?thesis by (intro conjI) (erule conjunct2 conjunct1 | assumption)+
qed

subsection \<open>The entity file\<close>

text \<open>
  Claim C4. Whatever the collaborators, the state and the other arguments: a deployment
  whose files hold no file named entity.json fails with the "failed to find" error, one
  whose files hold more than one fails with the "more than one" error, and one whose
  only entity.json does not hash to the entity id fails with the hash mismatch error;
  in all three the service is left exactly as it was. With exactly one entity.json that
  hashes to the entity id, the outcome is that of the validations (and of the commit
  after them) on that file.
\<close>

theorem deploy_entity_file_checks:
  fixes env :: "'p Collaborators" and this :: "'p ServiceImpl"
  shows
  "(filter (\<lambda>file. file_name file = ''entity.json'') files = [] \<longrightarrow>
      deployEntityWithServerAndTimestamp env files entityId address sig serverName
        timestampCalculator checkFreshness this = (Inl FailedToFindEntityFile, this)) \<and>
   (length (filter (\<lambda>file. file_name file = ''entity.json'') files) > 1 \<longrightarrow>
      deployEntityWithServerAndTimestamp env files entityId address sig serverName
        timestampCalculator checkFreshness this = (Inl MoreThanOneEntityFile, this)) \<and>
   (\<forall>entityFile. filter (\<lambda>file. file_name file = ''entity.json'') files = [entityFile] \<longrightarrow>
      (Hashing_calculateHash env entityFile \<noteq> entityId \<longrightarrow>
         deployEntityWithServerAndTimestamp env files entityId address sig serverName
           timestampCalculator checkFreshness this = (Inl EntityHashMismatch, this)) \<and>
      (Hashing_calculateHash env entityFile = entityId \<longrightarrow>
         deployEntityWithServerAndTimestamp env files entityId address sig serverName
           timestampCalculator checkFreshness this =
         validateDeployment env files entityFile entityId address sig serverName
           timestampCalculator checkFreshness this))"
proof -
  have none: "findEntityFile files = Inl FailedToFindEntityFile"
    if "filter (\<lambda>file. file_name file = ''entity.json'') files = []"
    using that by (simp add: findEntityFile_def ENTITY_FILE_NAME_def)
  have many: "findEntityFile files = Inl MoreThanOneEntityFile"
    if "length (filter (\<lambda>file. file_name file = ''entity.json'') files) > 1"
    using that by (auto simp: findEntityFile_def ENTITY_FILE_NAME_def Let_def)
  have one: "findEntityFile files = Inr entityFile"
    if "filter (\<lambda>file. file_name file = ''entity.json'') files = [entityFile]" for entityFile
    using that by (simp add: findEntityFile_Inr)
  show ?thesis
    by (auto simp: deployEntityWithServerAndTimestamp_def none many one)
qed

lemma example_filter:
  "filter (\<lambda>file. file_name file = ''entity.json'') example_files =
     [\<lparr> file_name = ''entity.json'', file_content = [1, 2, 3] \<rparr>]"
  by (simp add: example_files_def)

theorem deploy_entity_file_checks_witness:
  "deployEntityWithServerAndTimestamp example_env [] ''E1'' ''0xabc'' ''sig'' ''server-1''
      (\<lambda>_. 2000) True empty_service = (Inl FailedToFindEntityFile, empty_service) \<and>
   deployEntityWithServerAndTimestamp example_env two_entity_files ''E1'' ''0xabc'' ''sig'' ''server-1''
      (\<lambda>_. 2000) True empty_service = (Inl MoreThanOneEntityFile, empty_service) \<and>
   deployEntityWithServerAndTimestamp example_env example_files ''E7'' ''0xabc'' ''sig'' ''server-1''
      (\<lambda>_. 2000) True empty_service = (Inl EntityHashMismatch, empty_service) \<and>
   deployEntityWithServerAndTimestamp example_env example_files ''E1'' ''0xabc'' ''sig'' ''server-1''
      (\<lambda>_. 2000) True empty_service =
   validateDeployment example_env example_files
      \<lparr> file_name = ''entity.json'', file_content = [1, 2, 3] \<rparr> ''E1'' ''0xabc'' ''sig'' ''server-1''
      (\<lambda>_. 2000) True empty_service"
proof -
  note t = deploy_entity_file_checks[where env = example_env and address = "''0xabc''"
      and sig = "''sig''" and serverName = "''server-1''" and timestampCalculator = "\<lambda>_. 2000"
      and checkFreshness = True and this = empty_service]
  have h: "Hashing_calculateHash example_env \<lparr> file_name = ''entity.json'', file_content = [1, 2, 3] \<rparr> = ''E1''"
    by (simp add: example_env_def example_hash_def)
  show ?thesis
    using t[of "[]" "''E1''"] t[of two_entity_files "''E1''"] t[of example_files "''E7''"]
      t[of example_files "''E1''"] h
    by (simp add: example_filter two_entity_files_def)
qed

subsection \<open>Validations\<close>

text \<open>
  Claim C5. With bounds that are not negative, RECENT fails with "The request is not
  recent enough, please submit it again with a new timestamp." when the timestamp of
  the entity is more than the backwards bound before now, fails with the "too far in
  the future" error when it is more than the forwards bound after now, and returns no
  error in between, so for a timestamp equal to now; with the default bounds of ten
  and five minutes an entity stamped 25 minutes ago is rejected as not recent enough.
\<close>

theorem RECENT_rejects_stale_and_future:
  assumes "0 \<le> ttlBackwards" and "0 \<le> ttlForwards"
  shows
   "(entity_timestamp entity < now - ttlBackwards \<longrightarrow>
       RECENT now ttlBackwards ttlForwards entity =
         Some [''The request is not recent enough, please submit it again with a new timestamp.'']) \<and>
    (now + ttlForwards < entity_timestamp entity \<longrightarrow>
       RECENT now ttlBackwards ttlForwards entity =
         Some [''The request is too far in the future, please submit it again with a new timestamp.'']) \<and>
    (now - ttlBackwards \<le> entity_timestamp entity \<and> entity_timestamp entity \<le> now + ttlForwards \<longrightarrow>
       RECENT now ttlBackwards ttlForwards entity = None) \<and>
    (entity_timestamp entity = now \<longrightarrow> RECENT now ttlBackwards ttlForwards entity = None) \<and>
    (entity_timestamp entity = now - minutes 25 \<longrightarrow>
       RECENT now DEFAULT_REQUEST_TTL_BACKWARDS DEFAULT_REQUEST_TTL_FORWARDS entity =
         Some [''The request is not recent enough, please submit it again with a new timestamp.''])"
  using assms
  by (auto simp: RECENT_def notRecentEnoughMessage_def tooFarInTheFutureMessage_def
      DEFAULT_REQUEST_TTL_BACKWARDS_def DEFAULT_REQUEST_TTL_FORWARDS_def minutes_def)

theorem RECENT_rejects_stale_and_future_witness:
  "RECENT 10000000 (minutes 10) (minutes 5) (buildEntity [''P1''] (10000000 - minutes 25) None) =
      Some [''The request is not recent enough, please submit it again with a new timestamp.''] \<and>
   RECENT 10000000 (minutes 10) (minutes 5) (buildEntity [''P1''] (10000000 + minutes 20) None) =
      Some [''The request is too far in the future, please submit it again with a new timestamp.''] \<and>
   RECENT 10000000 (minutes 10) (minutes 5) (buildEntity [''P1''] 10000000 None) = None"
proof -
  have b: "0 \<le> minutes 10" and f: "0 \<le> minutes 5" by (simp_all add: minutes_def)
  note t = RECENT_rejects_stale_and_future[OF b f, where now = 10000000]
  show ?thesis
    using t[of "buildEntity [''P1''] (10000000 - minutes 25) None"]
      t[of "buildEntity [''P1''] (10000000 + minutes 20) None"]
      t[of "buildEntity [''P1''] 10000000 None"]
    by (simp add: buildEntity_def minutes_def)
qed

text \<open>
  Claim C6. CONTENT reports "This hash is referenced in the entity but was not uploaded
  or previously available: h" for each hash h of entity.content that is neither a key of
  the uploaded files nor reported as already stored, and "This hash was uploaded but is
  not referenced in the entity: h" for each uploaded hash h that entity.content does not
  reference, the id of the entity excepted; it returns no error when every referenced
  hash is uploaded or already stored and every upload is referenced or is the entity
  file; and it reports nothing else.
\<close>

theorem CONTENT_reports_missing_and_orphans:
  "(\<forall>hash \<in> set (contentValues entity).
       hash \<notin> fst ` set files \<and>
       map_of (isContentStoredAlready (contentValues entity)) hash \<noteq> Some True \<longrightarrow>
       (\<exists>errors. CONTENT isContentStoredAlready entity files = Some errors \<and>
          ''This hash is referenced in the entity but was not uploaded or previously available: '' @ hash
            \<in> set errors)) \<and>
   (\<forall>hash \<in> fst ` set files.
       hash \<notin> set (contentValues entity) \<and> hash \<noteq> entity_id entity \<longrightarrow>
       (\<exists>errors. CONTENT isContentStoredAlready entity files = Some errors \<and>
          ''This hash was uploaded but is not referenced in the entity: '' @ hash \<in> set errors)) \<and>
   ((\<forall>hash \<in> set (contentValues entity).
        hash \<in> fst ` set files \<or>
        map_of (isContentStoredAlready (contentValues entity)) hash = Some True) \<and>
    (\<forall>hash \<in> fst ` set files. hash \<in> set (contentValues entity) \<or> hash = entity_id entity)
    \<longrightarrow> CONTENT isContentStoredAlready entity files = None) \<and>
   (\<forall>errors. CONTENT isContentStoredAlready entity files = Some errors \<longrightarrow>
      set errors =
        {''This hash is referenced in the entity but was not uploaded or previously available: '' @ hash
           | hash. hash \<in> set (contentValues entity) \<and> hash \<notin> fst ` set files \<and>
                   map_of (isContentStoredAlready (contentValues entity)) hash \<noteq> Some True} \<union>
        {''This hash was uploaded but is not referenced in the entity: '' @ hash
           | hash. hash \<in> fst ` set files \<and> hash \<notin> set (contentValues entity) \<and>
                   hash \<noteq> entity_id entity})"
proof -
  define notAvailable where "notAvailable = map notAvailableHashMessage
      (filter (\<lambda>hash. \<not> (hash \<in> set (map fst files) \<or>
          map_of (isContentStoredAlready (contentValues entity)) hash = Some True))
        (contentValues entity))"
  define notReferenced where "notReferenced = map notReferencedHashMessage
      (filter (\<lambda>hash. hash \<notin> set (contentValues entity) \<and> hash \<noteq> entity_id entity) (map fst files))"
  have c: "CONTENT isContentStoredAlready entity files =
      (if notAvailable @ notReferenced = [] then None else Some (notAvailable @ notReferenced))"
    by (simp add: CONTENT_def Let_def notAvailable_def notReferenced_def)
  have na: "set notAvailable =
      {''This hash is referenced in the entity but was not uploaded or previously available: '' @ hash
           | hash. hash \<in> set (contentValues entity) \<and> hash \<notin> fst ` set files \<and>
                   map_of (isContentStoredAlready (contentValues entity)) hash \<noteq> Some True}"
    by (auto simp: notAvailable_def notAvailableHashMessage_def)
  have nr: "set notReferenced =
      {''This hash was uploaded but is not referenced in the entity: '' @ hash
           | hash. hash \<in> fst ` set files \<and> hash \<notin> set (contentValues entity) \<and>
                   hash \<noteq> entity_id entity}"
    by (auto simp: notReferenced_def notReferencedHashMessage_def)
  have p1: "\<exists>errors. CONTENT isContentStoredAlready entity files = Some errors \<and>
          ''This hash is referenced in the entity but was not uploaded or previously available: '' @ hash
            \<in> set errors"
    if "hash \<in> set (contentValues entity)" and "hash \<notin> fst ` set files \<and>
       map_of (isContentStoredAlready (contentValues entity)) hash \<noteq> Some True" for hash
  proof -
    from that have m: "''This hash is referenced in the entity but was not uploaded or previously available: '' @ hash
        \<in> set notAvailable"
      unfolding na by blast
    then have "notAvailable @ notReferenced \<noteq> []" by auto
    with m show ?thesis unfolding c by simp
  qed
  have p2: "\<exists>errors. CONTENT isContentStoredAlready entity files = Some errors \<and>
          ''This hash was uploaded but is not referenced in the entity: '' @ hash \<in> set errors"
    if "hash \<in> fst ` set files" and "hash \<notin> set (contentValues entity) \<and> hash \<noteq> entity_id entity"
    for hash
  proof -
    from that have m: "''This hash was uploaded but is not referenced in the entity: '' @ hash
        \<in> set notReferenced"
      unfolding nr by blast
    then have "notAvailable @ notReferenced \<noteq> []" by auto
    with m show ?thesis unfolding c by simp
  qed
  have p3: "CONTENT isContentStoredAlready entity files = None"
    if "(\<forall>hash \<in> set (contentValues entity).
        hash \<in> fst ` set files \<or>
        map_of (isContentStoredAlready (contentValues entity)) hash = Some True) \<and>
      (\<forall>hash \<in> fst ` set files. hash \<in> set (contentValues entity) \<or> hash = entity_id entity)"
  proof -
    from that have "set notAvailable = {}" and "set notReferenced = {}"
      unfolding na nr by blast+
    then show ?thesis unfolding c by simp
  qed
  have p4: "set errors =
        {''This hash is referenced in the entity but was not uploaded or previously available: '' @ hash
           | hash. hash \<in> set (contentValues entity) \<and> hash \<notin> fst ` set files \<and>
                   map_of (isContentStoredAlready (contentValues entity)) hash \<noteq> Some True} \<union>
        {''This hash was uploaded but is not referenced in the entity: '' @ hash
           | hash. hash \<in> fst ` set files \<and> hash \<notin> set (contentValues entity) \<and>
                   hash \<noteq> entity_id entity}"
    if "CONTENT isContentStoredAlready entity files = Some errors" for errors
  proof -
    from that have "errors = notAvailable @ notReferenced"
      unfolding c by (simp split: if_splits)
    then have "set errors = set notAvailable \<union> set notReferenced" by simp
    then show ?thesis unfolding na nr .
  qed
  from p1 p2 p3 p4 show ?thesis by blast
qed

theorem CONTENT_reports_missing_and_orphans_witness:
  "(\<exists>errors. CONTENT (\<lambda>hashes. map (\<lambda>hash. (hash, False)) hashes)
        (buildEntity [''P1''] 0 (Some [(''name'', ''hash'')])) [] = Some errors \<and>
      ''This hash is referenced in the entity but was not uploaded or previously available: hash''
        \<in> set errors) \<and>
   (\<exists>errors. CONTENT (\<lambda>hashes. map (\<lambda>hash. (hash, False)) hashes)
        (buildEntity [''P1''] 0 (Some [(''name-1'', ''hash-1'')]))
        [(''hash-1'', []), (''hash-2'', [])] = Some errors \<and>
      ''This hash was uploaded but is not referenced in the entity: hash-2'' \<in> set errors) \<and>
   CONTENT (\<lambda>hashes. [(''hash'', True)])
        (buildEntity [''P1''] 0 (Some [(''name'', ''hash'')])) [] = None"
proof -
  note t1 = CONTENT_reports_missing_and_orphans[
      where isContentStoredAlready = "\<lambda>hashes. map (\<lambda>hash. (hash, False)) hashes"
        and entity = "buildEntity [''P1''] 0 (Some [(''name'', ''hash'')])" and files = "[]"]
  note t2 = CONTENT_reports_missing_and_orphans[
      where isContentStoredAlready = "\<lambda>hashes. map (\<lambda>hash. (hash, False)) hashes"
        and entity = "buildEntity [''P1''] 0 (Some [(''name-1'', ''hash-1'')])"
        and files = "[(''hash-1'', []), (''hash-2'', [])]"]
  note t3 = CONTENT_reports_missing_and_orphans[
      where isContentStoredAlready = "\<lambda>hashes. [(''hash'', True)]"
        and entity = "buildEntity [''P1''] 0 (Some [(''name'', ''hash'')])" and files = "[]"]
  have v1: "contentValues (buildEntity [''P1''] 0 (Some [(''name'', ''hash'')])) = [''hash'']"
    and v2: "contentValues (buildEntity [''P1''] 0 (Some [(''name-1'', ''hash-1'')])) = [''hash-1'']"
    and i2: "entity_id (buildEntity [''P1''] 0 (Some [(''name-1'', ''hash-1'')])) = ''id''"
    by (simp_all add: contentValues_def buildEntity_def)
  have a: "\<exists>errors. CONTENT (\<lambda>hashes. map (\<lambda>hash. (hash, False)) hashes)
        (buildEntity [''P1''] 0 (Some [(''name'', ''hash'')])) [] = Some errors \<and>
      ''This hash is referenced in the entity but was not uploaded or previously available: hash''
        \<in> set errors"
    using t1 unfolding v1 by simp
  have b: "\<exists>errors. CONTENT (\<lambda>hashes. map (\<lambda>hash. (hash, False)) hashes)
        (buildEntity [''P1''] 0 (Some [(''name-1'', ''hash-1'')]))
        [(''hash-1'', []), (''hash-2'', [])] = Some errors \<and>
      ''This hash was uploaded but is not referenced in the entity: hash-2'' \<in> set errors"
    using t2 unfolding v2 i2 by simp
  have c: "CONTENT (\<lambda>hashes. [(''hash'', True)])
        (buildEntity [''P1''] 0 (Some [(''name'', ''hash'')])) [] = None"
    using t3 unfolding v1 by simp
  from a b c show ?thesis by blast
qed

text \<open>
  Claim C7. For an entity with at least one pointer and a type with a configured limit,
  REQUEST_SIZE_V3 fails exactly when the sum of the sizes of the uploaded files divided
  by the number of pointers exceeds the limit of the type, in megabytes; that is,
  exactly when the sum exceeds the limit times the number of pointers. A 3 MB upload
  under a limit of 2 MB fails with one pointer and passes with two (the example that
  follows the theorem).
\<close>

theorem REQUEST_SIZE_V3_fails_iff_too_big_per_pointer:
  assumes "maxUploadSizePerTypeInMB (entity_type entity) = Some maxSizeInMB"
    and "entity_pointers entity \<noteq> []"
  shows
   "(REQUEST_SIZE_V3 maxUploadSizePerTypeInMB entity files \<noteq> None \<longleftrightarrow>
       real (sum_list (map (\<lambda>(hash, content). length content) files))
          / real (length (entity_pointers entity)) > maxSizeInMB * 1024 * 1024) \<and>
    (REQUEST_SIZE_V3 maxUploadSizePerTypeInMB entity files \<noteq> None \<longleftrightarrow>
       real (sum_list (map (\<lambda>(hash, content). length content) files))
          > maxSizeInMB * 1024 * 1024 * real (length (entity_pointers entity)))"
proof -
  from assms(2) have n: "0 < real (length (entity_pointers entity))" by simp
  show ?thesis
    using assms(1) n by (simp add: REQUEST_SIZE_V3_def Let_def pos_less_divide_eq)
qed

theorem REQUEST_SIZE_V3_fails_iff_too_big_per_pointer_witness:
  "REQUEST_SIZE_V3 [''scene'' \<mapsto> 2] (buildEntity [''P1''] 0 None) (getFileWithSize 3) \<noteq> None \<and>
   REQUEST_SIZE_V3 [''scene'' \<mapsto> 2] (buildEntity [''P1'', ''P2''] 0 None) (getFileWithSize 3) = None"
proof -
  have m1: "[''scene'' \<mapsto> 2 :: real] (entity_type (buildEntity [''P1''] 0 None)) = Some 2"
    and m2: "[''scene'' \<mapsto> 2 :: real] (entity_type (buildEntity [''P1'', ''P2''] 0 None)) = Some 2"
    and p1: "entity_pointers (buildEntity [''P1''] 0 None) \<noteq> []"
    and p2: "entity_pointers (buildEntity [''P1'', ''P2''] 0 None) \<noteq> []"
    by (simp_all add: buildEntity_def)
  from REQUEST_SIZE_V3_fails_iff_too_big_per_pointer[
      where maxUploadSizePerTypeInMB = "[''scene'' \<mapsto> 2]"
        and entity = "buildEntity [''P1''] 0 None" and files = "getFileWithSize 3", OF m1 p1]
  have a: "REQUEST_SIZE_V3 [''scene'' \<mapsto> 2] (buildEntity [''P1''] 0 None) (getFileWithSize 3) \<noteq> None"
    by (simp add: getFileWithSize_def buildEntity_def)
  from REQUEST_SIZE_V3_fails_iff_too_big_per_pointer[
      where maxUploadSizePerTypeInMB = "[''scene'' \<mapsto> 2]"
        and entity = "buildEntity [''P1'', ''P2''] 0 None" and files = "getFileWithSize 3", OF m2 p2]
  have b: "REQUEST_SIZE_V3 [''scene'' \<mapsto> 2] (buildEntity [''P1'', ''P2''] 0 None) (getFileWithSize 3) = None"
    by (simp add: getFileWithSize_def buildEntity_def)
  from a b show ?thesis by simp
qed

subsection \<open>The redirect client\<close>

text \<open>
  Claim C8. The redirect client is not active and its updateTimestamp changes nothing,
  as the claim says. But a redirected call does not return the first success among the
  active peers. In a cluster whose first active peer rejects every request and whose
  second one answers, the first success of getEntity among the active peers is the
  entity of the second peer, and getEntity on the redirect client returns the rejected
  promise of the first peer: the promise is returned without being awaited, so the
  catch of redirectCall never sees the rejection and the second peer is never asked.
  getStatus, for its part, is answered by the client itself, not by a peer.
\<close>

theorem redirect_returns_first_rejection:
  "redirect_isActive this = False \<and>
   snd (redirect_updateTimestamp this timestamp) = this \<and>
   getAllActiveServersInCluster example_cluster = [failing_peer, answering_peer] \<and>
   client_getEntity failing_peer ''scene'' ''E1'' = Returns (Rejected (PeerFailure ''ECONNREFUSED'')) \<and>
   client_getEntity answering_peer ''scene'' ''E1'' = Returns (Resolved plain_entity) \<and>
   firstSuccess (\<lambda>server. client_getEntity server ''scene'' ''E1'')
      (getAllActiveServersInCluster example_cluster) = Some plain_entity \<and>
   redirect_getEntity (getRedirectClient example_cluster ''peer-0'' 5) ''scene'' ''E1''
     = Returns (Rejected (PeerFailure ''ECONNREFUSED'')) \<and>
   redirect_getStatus (getRedirectClient example_cluster ''peer-0'' 5)
     = Returns (Resolved \<lparr> status_name = ''peer-0'', status_version = ''Unknown'',
          status_currentTime = 5, status_lastImmutableTime = Some (- 1) \<rparr>)"
  by (simp add: redirect_isActive_def redirect_updateTimestamp_def example_cluster_def
      getRedirectClient_def redirect_getEntity_def redirectCall_def redirect_getStatus_def
      failing_peer_def answering_peer_def)

subsection \<open>The status of the server\<close>

text \<open>
  Claim C9. The status that ServiceImpl.getStatus returns has the name of the server,
  the version "1.0" and the current time, and no lastImmutableTime: that field of the
  returned object is undefined, for every server.
\<close>

theorem getStatus_fields:
  "getStatus env this =
     \<lparr> status_name = getServerName env, status_version = ''1.0'',
       status_currentTime = Date_now env, status_lastImmutableTime = None \<rparr>"
  by (simp add: getStatus_def)

subsection \<open>The blacklist decorator\<close>

lemma areBlacklisted_no_targets:
  "areBlacklisted blacklisted [] = Inl TypeError_ReduceOfEmptyArray"
  by (simp add: areBlacklisted_def areTargetsBlacklisted_def)

lemma areBlacklisted_single:
  "areBlacklisted blacklisted [t] = Inr (blacklisted t)"
  by (simp add: areBlacklisted_def areTargetsBlacklisted_def)

text \<open>
  Claim C10. When the entity parsed from the entity file has no content map, or an
  empty one, the decorator's deployEntity throws, whatever the blacklist, the files and
  the deployer; and when the deployer's address is not blacklisted, what it throws is
  the TypeError of reducing an empty array without an initial value, whatever the
  blacklist says of the pointers and however the decorated service would have answered.
\<close>

theorem blacklist_deployEntity_without_content_throws:
  assumes "findEntityFile files = Inr entityFile"
    and "fromFile entityFile entityId = Some entity"
    and "entity_content entity = None \<or> entity_content entity = Some []"
  shows "(\<exists>err. blacklist_deployEntity blacklisted fromFile service_deployEntity
            files entityId address sig = Inl err) \<and>
         (\<not> blacklisted (buildAddressTarget address) \<longrightarrow>
            blacklist_deployEntity blacklisted fromFile service_deployEntity
              files entityId address sig = Inl TypeError_ReduceOfEmptyArray)"
proof -
  from assms(3) have no_targets: "map buildContentTarget (contentValues entity) = []"
    by (auto simp: contentValues_def)
  have unblacklisted: "blacklist_deployEntity blacklisted fromFile service_deployEntity
            files entityId address sig = Inl TypeError_ReduceOfEmptyArray"
    if "\<not> blacklisted (buildAddressTarget address)"
    using that assms(1,2) no_targets
    by (simp add: blacklist_deployEntity_def areBlacklisted_single areBlacklisted_no_targets)
  have blacklisted: "blacklist_deployEntity blacklisted fromFile service_deployEntity
            files entityId address sig = Inl (BlacklistedAddress address)"
    if "blacklisted (buildAddressTarget address)"
    using that by (simp add: blacklist_deployEntity_def areBlacklisted_single)
  from unblacklisted blacklisted show ?thesis by (cases "blacklisted (buildAddressTarget address)") auto
qed

theorem blacklist_deployEntity_without_content_throws_witness:
  "findEntityFile plain_files = Inr \<lparr> file_name = ''entity.json'', file_content = [1, 2, 3] \<rparr> \<and>
   entity_content plain_entity = None \<and>
   blacklist_deployEntity (\<lambda>target. False) (\<lambda>file entityId. Some plain_entity)
      (\<lambda>files entityId address sig. Inr (2000 :: int)) plain_files ''E1'' ''0xabc'' ''sig''
     = Inl TypeError_ReduceOfEmptyArray"
proof -
  have f: "findEntityFile plain_files = Inr \<lparr> file_name = ''entity.json'', file_content = [1, 2, 3] \<rparr>"
    by (simp add: findEntityFile_def plain_files_def ENTITY_FILE_NAME_def)
  have p: "(\<lambda>file entityId. Some plain_entity)
      \<lparr> file_name = ''entity.json'', file_content = [1, 2, 3] \<rparr> ''E1'' = Some plain_entity"
    by simp
  have c: "entity_content plain_entity = None \<or> entity_content plain_entity = Some []"
    by (simp add: plain_entity_def)
  from blacklist_deployEntity_without_content_throws[OF f p c,
      where blacklisted = "\<lambda>target. False"
        and service_deployEntity = "\<lambda>files entityId address sig. Inr (2000 :: int)"
        and address = "''0xabc''" and sig = "''sig''"]
  show ?thesis using f by (simp add: plain_entity_def)
qed

end
